theory Spec2Isabelle
  imports Main "HOL-Library.Word" "HOL-Library.AList"
begin

section \<open>Data model (the Mail and MailFilter structs)\<close>

text \<open>
  Go strings are byte sequences: \<open>string\<close> (a list of 8-bit characters).
  A \<open>time.Time\<close> is an instant and a location. The instant is a number of
  nanoseconds counted from the zero value of the type, so that \<open>IsZero\<close> is
  \<open>t = 0\<close>, \<open>a.Before(b)\<close> is \<open>a < b\<close> and \<open>a.After(b)\<close> is
  \<open>b < a\<close>: these methods do not look at the location. Formatting does: of
  the location, the model keeps the offset from UTC that it gives at the
  instant, in seconds east of UTC (0 for UTC and for the zero value of the
  type). A Mail carries the offset of each of its two times beside the instant
  (\<open>CreateZone\<close>, \<open>ExpireZone\<close>). Monotonic clock readings are left out.
\<close>

type_synonym time = int

text \<open>
  Errors are built in the source with \<open>errors.New\<close> and \<open>fmt.Errorf\<close>; the
  constructor records the kind of the error, the argument its message. A slice
  expression out of range does not return an error but panics: \<open>Panic\<close>.
\<close>

datatype error =
    InvalidArgument string
  | NotFound string
  | SerializationError string
  | StorageError string
  | Panic string

text \<open>
  \<open>Attachments map[string]interface{}\<close> and \<open>Tags []string\<close> may both be nil,
  which differs from empty: \<open>None\<close> is nil. The values of the attachment map
  are arbitrary Go values: the type variable \<open>'v\<close>.
\<close>

record 'v Mail =
  ID :: string
  SenderID :: string
  RecipientID :: string
  Title :: string
  Content :: string
  Attachments :: "(string \<rightharpoonup> 'v) option"
  ReadStatus :: bool
  CreateTime :: time
  CreateZone :: int
  ExpireTime :: time
  ExpireZone :: int
  Tags :: "string list option"

record MailFilter =
  fSenderID :: string
  fRecipientID :: string
  fReadStatus :: "bool option"
  fStartTime :: "time option"
  fEndTime :: "time option"
  fExpiredOnly :: bool
  fTags :: "string list option"

text \<open>Ranging over a nil slice and taking its length behave as for the empty slice.\<close>

definition elems :: "'a list option \<Rightarrow> 'a list" where
  "elems s = (case s of None \<Rightarrow> [] | Some xs \<Rightarrow> xs)"

section \<open>Helpers of the in-memory store\<close>

text \<open>
  \<open>copyMail\<close> builds a new Mail from the scalar fields, copies the tag slice
  when it is not nil and copies the attachment map entry by entry when it is not
  nil. A nil argument gives nil.
\<close>

definition copyMail :: "'v Mail option \<Rightarrow> 'v Mail option" where
  "copyMail mail =
     (case mail of
        None \<Rightarrow> None
      | Some m \<Rightarrow>
          Some \<lparr> ID = ID m, SenderID = SenderID m, RecipientID = RecipientID m,
                 Title = Title m, Content = Content m,
                 Attachments =
                   (case Attachments m of
                      None \<Rightarrow> None
                    | Some a \<Rightarrow> Some (\<lambda>k. a k)),
                 ReadStatus = ReadStatus m,
                 CreateTime = CreateTime m, CreateZone = CreateZone m,
                 ExpireTime = ExpireTime m, ExpireZone = ExpireZone m,
                 Tags = (case Tags m of None \<Rightarrow> None | Some ts \<Rightarrow> Some (map (\<lambda>t. t) ts)) \<rparr>)"

definition copyMail' :: "'v Mail \<Rightarrow> 'v Mail" where
  "copyMail' m = (case copyMail (Some m) of Some c \<Rightarrow> c | None \<Rightarrow> m)"

text \<open>
  \<open>matchMail\<close>, with its early returns in the order of the source. The two
  nested loops over the tags set \<open>hasTag\<close> as soon as a filter tag equals a tag
  of the mail.
\<close>

definition hasTag :: "string list \<Rightarrow> string list \<Rightarrow> bool" where
  "hasTag filterTags mailTags =
     list_ex (\<lambda>filterTag. list_ex (\<lambda>mailTag. filterTag = mailTag) mailTags) filterTags"

definition matchMail :: "'v Mail \<Rightarrow> MailFilter option \<Rightarrow> time \<Rightarrow> bool" where
  "matchMail mail flt now =
     (case flt of
        None \<Rightarrow> True
      | Some f \<Rightarrow>
          if fSenderID f \<noteq> [] \<and> SenderID mail \<noteq> fSenderID f then False
          else if fRecipientID f \<noteq> [] \<and> RecipientID mail \<noteq> fRecipientID f then False
          else if (case fReadStatus f of None \<Rightarrow> False | Some r \<Rightarrow> ReadStatus mail \<noteq> r) then False
          else if (case fStartTime f of None \<Rightarrow> False | Some st \<Rightarrow> CreateTime mail < st) then False
          else if (case fEndTime f of None \<Rightarrow> False | Some en \<Rightarrow> en < CreateTime mail) then False
          else if fExpiredOnly f \<and> (ExpireTime mail = 0 \<or> \<not> ExpireTime mail < now) then False
          else if 0 < length (elems (fTags f)) \<and> \<not> hasTag (elems (fTags f)) (elems (Tags mail)) then False
          else True)"

text \<open>
  \<open>sort.Slice\<close> with the comparison \<open>matchedMails[i].CreateTime.After(matchedMails[j].CreateTime)\<close>.
  The library sort is not stable and the iteration order of a Go map is not
  fixed, so the source determines the order of mails with equal \<open>CreateTime\<close>
  in no way. The model sorts by insertion, keeping the order of iteration among
  equal keys; the order of iteration is the order of the list that represents
  the map, which is arbitrary.
\<close>

fun insertNewest :: "('a \<Rightarrow> time) \<Rightarrow> 'a \<Rightarrow> 'a list \<Rightarrow> 'a list" where
  "insertNewest created m [] = [m]"
| "insertNewest created m (x # xs) =
     (if created m < created x then x # insertNewest created m xs else m # x # xs)"

definition sortDesc :: "('a \<Rightarrow> time) \<Rightarrow> 'a list \<Rightarrow> 'a list" where
  "sortDesc created ms = foldr (insertNewest created) ms []"

definition sortNewestFirst :: "'v Mail list \<Rightarrow> 'v Mail list" where
  "sortNewestFirst ms = sortDesc CreateTime ms"

text \<open>
  Pagination as in \<open>GetMailsByRecipient\<close> and \<open>QueryMails\<close>. \<open>page\<close> and
  \<open>size\<close> are Go \<open>int\<close>s, 64 bits wide on the usual platforms, read as signed;
  the product and the sum wrap around. The slice expression
  \<open>matchedMails[start:end]\<close> panics unless \<open>0 \<le> start \<le> end \<le> len\<close>.
\<close>

definition paginate :: "'a list \<Rightarrow> 64 word \<Rightarrow> 64 word \<Rightarrow> error + ('a list \<times> int)" where
  "paginate matchedMails page0 size0 =
     (let page1 = (if sint page0 \<le> 0 then 1 else page0);
          size1 = (if sint size0 \<le> 0 then 10 else size0);
          total = int (length matchedMails);
          start = (page1 - 1) * size1;
          end0 = start + size1
      in if total \<le> sint start then Inr ([], total)
         else let end1 = (if total < sint end0 then total else sint end0)
              in if 0 \<le> sint start \<and> sint start \<le> end1
                 then Inr (take (nat end1 - nat (sint start)) (drop (nat (sint start)) matchedMails), total)
                 else Inl (Panic ''slice bounds out of range''))"

section \<open>The in-memory store\<close>

text \<open>
  \<open>MemoryMailStore\<close>: the map \<open>mails\<close> from ids to stored mails and the
  counter of the \<open>SimpleIDGenerator\<close>. The map is an association list with
  distinct keys; its order stands for the order in which a \<open>range\<close> loop
  happens to visit the map. The locks are not modelled: each operation holds the
  lock from its first to its last statement, so operations are atomic steps.
\<close>

record 'v MemoryMailStore =
  mails :: "(string \<times> 'v Mail) list"
  counter :: int

definition NewMemoryMailStore :: "'v MemoryMailStore" where
  "NewMemoryMailStore = \<lparr> mails = [], counter = 0 \<rparr>"

definition store_inv :: "'v MemoryMailStore \<Rightarrow> bool" where
  "store_inv s = distinct (map fst (mails s))"

text \<open>\<open>%d\<close> of \<open>fmt.Sprintf\<close>: the decimal digits, with a minus sign when negative.\<close>

fun dec_nat :: "nat \<Rightarrow> string" where
  "dec_nat n = (if n < 10 then [''0123456789'' ! n]
                else dec_nat (n div 10) @ [''0123456789'' ! (n mod 10)])"

declare dec_nat.simps [simp del]

definition fmt_d :: "int \<Rightarrow> string" where
  "fmt_d i = (if i < 0 then CHR ''-'' # dec_nat (nat (- i)) else dec_nat (nat i))"

text \<open>
  \<open>GenerateID\<close> increments the counter and formats it after the reading of
  the clock \<open>time.Now().UnixNano()\<close>, which is an argument of the model. The
  counter is an unbounded integer here: the 64-bit counter of the source would
  wrap around only after \<open>2 ^ 63\<close> generated ids.
\<close>

definition GenerateID :: "int \<Rightarrow> int \<Rightarrow> int \<times> string" where
  "GenerateID unixNano c = (c + 1, ''mail_'' @ fmt_d unixNano @ ''_'' @ fmt_d (c + 1))"

text \<open>
  \<open>CreateMail\<close> writes the generated id into the object its argument points
  to. The model returns the store, the caller's object after the call and the
  result.
\<close>

definition mem_CreateMail ::
  "int \<Rightarrow> 'v MemoryMailStore \<Rightarrow> 'v Mail option
     \<Rightarrow> 'v MemoryMailStore \<times> 'v Mail option \<times> (error + string)" where
  "mem_CreateMail unixNano s mail =
     (case mail of
        None \<Rightarrow> (s, None, Inl (InvalidArgument ''mail cannot be nil''))
      | Some m \<Rightarrow>
          let (c, m1) = (if ID m = [] then (let (c', i) = GenerateID unixNano (counter s)
                                           in (c', m\<lparr>ID := i\<rparr>))
                         else (counter s, m));
              mailCopy = copyMail' m1
          in (\<lparr> mails = AList.update (ID m1) mailCopy (mails s), counter = c \<rparr>,
              Some m1, Inr (ID m1)))"

definition mem_GetMail :: "'v MemoryMailStore \<Rightarrow> string \<Rightarrow> error + 'v Mail" where
  "mem_GetMail s mailID =
     (case map_of (mails s) mailID of
        None \<Rightarrow> Inl (NotFound (''mail with ID '' @ mailID @ '' not found''))
      | Some mail \<Rightarrow> Inr (copyMail' mail))"

definition mem_UpdateMail ::
  "'v MemoryMailStore \<Rightarrow> 'v Mail option \<Rightarrow> 'v MemoryMailStore \<times> (error + unit)" where
  "mem_UpdateMail s mail =
     (case mail of
        None \<Rightarrow> (s, Inl (InvalidArgument ''mail cannot be nil and must have an ID''))
      | Some m \<Rightarrow>
          if ID m = [] then (s, Inl (InvalidArgument ''mail cannot be nil and must have an ID''))
          else (case map_of (mails s) (ID m) of
                  None \<Rightarrow> (s, Inl (NotFound (''mail with ID '' @ ID m @ '' not found'')))
                | Some _ \<Rightarrow> (s\<lparr>mails := AList.update (ID m) (copyMail' m) (mails s)\<rparr>, Inr ())))"

definition mem_DeleteMail ::
  "'v MemoryMailStore \<Rightarrow> string \<Rightarrow> 'v MemoryMailStore \<times> (error + unit)" where
  "mem_DeleteMail s mailID =
     (case map_of (mails s) mailID of
        None \<Rightarrow> (s, Inl (NotFound (''mail with ID '' @ mailID @ '' not found'')))
      | Some _ \<Rightarrow> (s\<lparr>mails := AList.delete mailID (mails s)\<rparr>, Inr ()))"

text \<open>
  \<open>CreateBatchMails\<close> receives a slice of pointers, which may be nil and may
  point to the same object more than once. The objects of the caller live in a
  heap, a function from addresses to Mail objects; the loop writes the generated
  ids into it. \<open>clock k\<close> is the reading of the clock taken when the element of
  index \<open>k\<close> needs an id.
\<close>

type_synonym 'v heap = "nat \<Rightarrow> 'v Mail"

text \<open>The addresses of the pointers of a slice that are not nil, in order.\<close>

definition non_nil :: "nat option list \<Rightarrow> nat list" where
  "non_nil ps = concat (map (\<lambda>p. case p of None \<Rightarrow> [] | Some a \<Rightarrow> [a]) ps)"

fun mem_batch_loop ::
  "(nat \<Rightarrow> int) \<Rightarrow> nat \<Rightarrow> nat option list
     \<Rightarrow> 'v MemoryMailStore \<times> 'v heap \<times> string list
     \<Rightarrow> 'v MemoryMailStore \<times> 'v heap \<times> string list" where
  "mem_batch_loop clock k [] acc = acc"
| "mem_batch_loop clock k (None # ps) acc = mem_batch_loop clock (Suc k) ps acc"
| "mem_batch_loop clock k (Some a # ps) (s, h, ids) =
     (let m = h a;
          (c, m1) = (if ID m = [] then (let (c', i) = GenerateID (clock k) (counter s)
                                       in (c', m\<lparr>ID := i\<rparr>))
                     else (counter s, m));
          mailCopy = copyMail' m1
      in mem_batch_loop clock (Suc k) ps
           (\<lparr> mails = AList.update (ID m1) mailCopy (mails s), counter = c \<rparr>,
            h(a := m1), ids @ [ID m1]))"

definition mem_CreateBatchMails ::
  "(nat \<Rightarrow> int) \<Rightarrow> 'v MemoryMailStore \<Rightarrow> 'v heap \<Rightarrow> nat option list
     \<Rightarrow> 'v MemoryMailStore \<times> 'v heap \<times> (error + string list)" where
  "mem_CreateBatchMails clock s h ps =
     (if length ps = 0 then (s, h, Inr [])
      else let (s', h', ids) = mem_batch_loop clock 0 ps (s, h, [])
           in (s', h', Inr ids))"

definition mem_DeleteMailsByRecipient ::
  "'v MemoryMailStore \<Rightarrow> string \<Rightarrow> 'v MemoryMailStore \<times> (error + unit)" where
  "mem_DeleteMailsByRecipient s recipientID =
     (if recipientID = [] then (s, Inl (InvalidArgument ''recipientID cannot be empty''))
      else let toDelete = map fst (filter (\<lambda>(i, mail). RecipientID mail = recipientID) (mails s))
           in (s\<lparr>mails := fold AList.delete toDelete (mails s)\<rparr>, Inr ()))"

definition expired :: "time \<Rightarrow> 'v Mail \<Rightarrow> bool" where
  "expired beforeTime mail = (ExpireTime mail \<noteq> 0 \<and> ExpireTime mail < beforeTime)"

definition mem_DeleteExpiredMails ::
  "'v MemoryMailStore \<Rightarrow> time \<Rightarrow> 'v MemoryMailStore \<times> (error + int)" where
  "mem_DeleteExpiredMails s beforeTime =
     (let toDelete = map fst (filter (\<lambda>(i, mail). expired beforeTime mail) (mails s))
      in (s\<lparr>mails := fold AList.delete toDelete (mails s)\<rparr>, Inr (int (length toDelete))))"

definition mem_GetMailsByRecipient ::
  "'v MemoryMailStore \<Rightarrow> string \<Rightarrow> 64 word \<Rightarrow> 64 word \<Rightarrow> error + ('v Mail list \<times> int)" where
  "mem_GetMailsByRecipient s recipientID page sz =
     (let matchedMails = map copyMail' (filter (\<lambda>mail. RecipientID mail = recipientID) (map snd (mails s)))
      in paginate (sortNewestFirst matchedMails) page sz)"

text \<open>
  \<open>QueryMails\<close> reads the clock once, before the loop; the reading is the
  argument \<open>now\<close>.
\<close>

definition mem_matched :: "'v MemoryMailStore \<Rightarrow> MailFilter option \<Rightarrow> time \<Rightarrow> 'v Mail list" where
  "mem_matched s flt now =
     sortNewestFirst (map copyMail' (filter (\<lambda>mail. matchMail mail flt now) (map snd (mails s))))"

definition mem_QueryMails ::
  "'v MemoryMailStore \<Rightarrow> MailFilter option \<Rightarrow> 64 word \<Rightarrow> 64 word \<Rightarrow> time
     \<Rightarrow> error + ('v Mail list \<times> int)" where
  "mem_QueryMails s flt page sz now = paginate (mem_matched s flt now) page sz"

definition mem_CountUnreadMails :: "'v MemoryMailStore \<Rightarrow> string \<Rightarrow> error + int" where
  "mem_CountUnreadMails s recipientID =
     Inr (int (length (filter (\<lambda>mail. RecipientID mail = recipientID \<and> \<not> ReadStatus mail)
                         (map snd (mails s)))))"

definition mem_CountMailsWithAttachments :: "'v MemoryMailStore \<Rightarrow> string \<Rightarrow> error + int" where
  "mem_CountMailsWithAttachments s recipientID =
     Inr (int (length (filter (\<lambda>mail. RecipientID mail = recipientID \<and>
                                  (case Attachments mail of None \<Rightarrow> False | Some a \<Rightarrow> dom a \<noteq> {}))
                         (map snd (mails s)))))"

text \<open>
  \<open>ExportMailLogs\<close> collects and sorts as \<open>QueryMails\<close> does and hands the
  whole list to \<open>json.MarshalIndent\<close>. The model returns that list; the text
  rendered from it is not modelled.
\<close>

definition mem_ExportMailLogs ::
  "'v MemoryMailStore \<Rightarrow> MailFilter option \<Rightarrow> time \<Rightarrow> error + 'v Mail list" where
  "mem_ExportMailLogs s flt now = Inr (mem_matched s flt now)"

section \<open>The manager\<close>

text \<open>
  \<open>DefaultMailManager\<close> holds a \<open>MailStore\<close>, an interface: the operations
  of some store over its state \<open>'st\<close>. \<open>MarkAsRead\<close> uses two of them.
\<close>

record ('st, 'v) MailStore =
  GetMail :: "'st \<Rightarrow> string \<Rightarrow> error + 'v Mail"
  UpdateMail :: "'st \<Rightarrow> 'v Mail option \<Rightarrow> 'st \<times> (error + unit)"

definition MarkAsRead :: "('st, 'v) MailStore \<Rightarrow> 'st \<Rightarrow> string \<Rightarrow> 'st \<times> (error + unit)" where
  "MarkAsRead store st mailID =
     (if mailID = [] then (st, Inl (InvalidArgument ''mail ID cannot be empty''))
      else case GetMail store st mailID of
             Inl err \<Rightarrow> (st, Inl err)
           | Inr mail \<Rightarrow>
               if ReadStatus mail then (st, Inr ())
               else UpdateMail store st (Some (mail\<lparr>ReadStatus := True\<rparr>)))"

definition MemoryStore :: "('v MemoryMailStore, 'v) MailStore" where
  "MemoryStore = \<lparr> GetMail = mem_GetMail, UpdateMail = mem_UpdateMail \<rparr>"

section \<open>The library functions used by the durable store\<close>

subsection \<open>UTF-8\<close>

definition byte :: "char \<Rightarrow> nat" where
  "byte c = of_char c"

definition cont :: "char \<Rightarrow> bool" where
  "cont c = (0x80 \<le> byte c \<and> byte c \<le> 0xBF)"

text \<open>
  The width of the encoding at the head of a string, as the second result of
  \<open>utf8.DecodeRuneInString\<close>, except that \<open>0\<close> stands for the result
  \<open>(RuneError, 1)\<close> of an ill-formed or truncated sequence, and for the empty
  string.
\<close>

definition utf8_len :: "string \<Rightarrow> nat" where
  "utf8_len s =
     (case s of
        [] \<Rightarrow> 0
      | b0 # r \<Rightarrow>
          let x = byte b0 in
          if x < 0x80 then 1
          else if 0xC2 \<le> x \<and> x \<le> 0xDF then
            (case r of b1 # _ \<Rightarrow> if cont b1 then 2 else 0 | _ \<Rightarrow> 0)
          else if 0xE0 \<le> x \<and> x \<le> 0xEF then
            (case r of
               b1 # b2 # _ \<Rightarrow>
                 if (if x = 0xE0 then 0xA0 else 0x80) \<le> byte b1 \<and>
                    byte b1 \<le> (if x = 0xED then 0x9F else 0xBF) \<and> cont b2
                 then 3 else 0
             | _ \<Rightarrow> 0)
          else if 0xF0 \<le> x \<and> x \<le> 0xF4 then
            (case r of
               b1 # b2 # b3 # _ \<Rightarrow>
                 if (if x = 0xF0 then 0x90 else 0x80) \<le> byte b1 \<and>
                    byte b1 \<le> (if x = 0xF4 then 0x8F else 0xBF) \<and> cont b2 \<and> cont b3
                 then 4 else 0
             | _ \<Rightarrow> 0)
          else 0)"

text \<open>\<open>utf8.EncodeRune\<close>; surrogates and values above U+10FFFF give U+FFFD.\<close>

definition encodeRune :: "nat \<Rightarrow> string" where
  "encodeRune r =
     (if r \<le> 0x7F then [char_of r]
      else if r \<le> 0x7FF then [char_of (0xC0 + r div 64), char_of (0x80 + r mod 64)]
      else if 0x10FFFF < r \<or> (0xD800 \<le> r \<and> r \<le> 0xDFFF) then
        [CHR 0xEF, CHR 0xBF, CHR 0xBD]
      else if r \<le> 0xFFFF then
        [char_of (0xE0 + r div 4096), char_of (0x80 + (r div 64) mod 64), char_of (0x80 + r mod 64)]
      else
        [char_of (0xF0 + r div 262144), char_of (0x80 + (r div 4096) mod 64),
         char_of (0x80 + (r div 64) mod 64), char_of (0x80 + r mod 64)])"

definition lineSep :: string where
  "lineSep = [CHR 0xE2, CHR 0x80, CHR 0xA8]"

definition paraSep :: string where
  "paraSep = [CHR 0xE2, CHR 0x80, CHR 0xA9]"

definition replacementChar :: string where
  "replacementChar = [CHR 0xEF, CHR 0xBF, CHR 0xBD]"

subsection \<open>\<open>json.Marshal\<close> of a slice of strings\<close>

text \<open>
  The string encoder of \<open>encoding/json\<close> with HTML escaping, which
  \<open>json.Marshal\<close> switches on: the quote and the backslash are escaped by a
  backslash; backspace, form feed, newline, carriage return and tab by their
  letter; the other bytes below 0x20 and the characters \<open><\<close>, \<open>>\<close>, \<open>&\<close>
  as a backslash, \<open>u00\<close> and two hexadecimal digits; every byte that does not
  start a well-formed UTF-8 sequence as the escape of U+FFFD; U+2028 and U+2029
  as their escapes; everything else is copied. (Releases of Go before 1.22
  write backspace and form feed in the \<open>u00\<close> form; both forms are read back
  as the same byte.)
\<close>

definition bslash :: char where
  "bslash = CHR 0x5C"

definition dquote :: char where
  "dquote = CHR 0x22"

definition hexdigit :: "nat \<Rightarrow> char" where
  "hexdigit n = ''0123456789abcdef'' ! (n mod 16)"

definition esc_ascii :: "char \<Rightarrow> string" where
  "esc_ascii b =
     (if b = bslash \<or> b = dquote then [bslash, b]
      else if b = CHR 0x08 then [bslash, CHR ''b'']
      else if b = CHR 0x0C then [bslash, CHR ''f'']
      else if b = CHR 0x0A then [bslash, CHR ''n'']
      else if b = CHR 0x0D then [bslash, CHR ''r'']
      else if b = CHR 0x09 then [bslash, CHR ''t'']
      else if byte b < 0x20 \<or> b = CHR ''<'' \<or> b = CHR ''>'' \<or> b = CHR ''&'' then
        [bslash, CHR ''u'', CHR ''0'', CHR ''0'', hexdigit (byte b div 16), hexdigit (byte b mod 16)]
      else [b])"

fun json_escape :: "string \<Rightarrow> string" where
  "json_escape [] = []"
| "json_escape (b # r) =
     (if byte b < 0x80 then esc_ascii b @ json_escape r
      else if utf8_len (b # r) = 0 then bslash # ''ufffd'' @ json_escape r
      else if take 3 (b # r) = lineSep then bslash # ''u2028'' @ json_escape (drop 2 r)
      else if take 3 (b # r) = paraSep then bslash # ''u2029'' @ json_escape (drop 2 r)
      else take (utf8_len (b # r)) (b # r) @ json_escape (drop (utf8_len (b # r) - 1) r))"

definition json_string :: "string \<Rightarrow> string" where
  "json_string t = dquote # json_escape t @ [dquote]"

fun join_comma :: "string list \<Rightarrow> string" where
  "join_comma [] = []"
| "join_comma [x] = x"
| "join_comma (x # y # ys) = x @ CHR '','' # join_comma (y # ys)"

definition marshal_tags :: "string list \<Rightarrow> string" where
  "marshal_tags ts = CHR ''['' # join_comma (map json_string ts) @ '']''"

subsection \<open>\<open>json.Unmarshal\<close> into a slice of strings\<close>

text \<open>
  \<open>json.Unmarshal\<close> into a \<open>[]string\<close> variable that is nil succeeds on
  the literal \<open>null\<close>, which leaves the variable nil, and on an array whose
  elements are strings or \<open>null\<close> (a \<open>null\<close> element is the empty string),
  with white space between the tokens. Any other input is a syntax error or a
  type error, and the caller treats both alike. A string is unquoted as
  \<open>unquoteBytes\<close> does: escapes are replaced, also the pairs of surrogates
  written as two escapes, and bytes that are not well-formed UTF-8 become U+FFFD.
\<close>

definition is_ws :: "char \<Rightarrow> bool" where
  "is_ws c = (c = CHR '' '' \<or> c = CHR 0x09 \<or> c = CHR 0x0D \<or> c = CHR 0x0A)"

definition hexval :: "char \<Rightarrow> nat option" where
  "hexval c =
     (let x = byte c in
      if 0x30 \<le> x \<and> x \<le> 0x39 then Some (x - 0x30)
      else if 0x61 \<le> x \<and> x \<le> 0x66 then Some (x - 0x61 + 10)
      else if 0x41 \<le> x \<and> x \<le> 0x46 then Some (x - 0x41 + 10)
      else None)"

text \<open>\<open>getu4\<close>: the value of an escape of the form backslash, u, four hexadecimal digits.\<close>

definition getu4 :: "string \<Rightarrow> nat option" where
  "getu4 s =
     (case s of
        b # u # h1 # h2 # h3 # h4 # _ \<Rightarrow>
          if b = bslash \<and> u = CHR ''u'' then
            (case (hexval h1, hexval h2, hexval h3, hexval h4) of
               (Some a, Some b, Some c, Some d) \<Rightarrow> Some (((a * 16 + b) * 16 + c) * 16 + d)
             | _ \<Rightarrow> None)
          else None
      | _ \<Rightarrow> None)"

datatype jmode = BeforeFirst | BeforeElem | InString | AfterElem

fun scan_tags :: "jmode \<Rightarrow> string list \<Rightarrow> string \<Rightarrow> string \<Rightarrow> (string list \<times> string) option" where
  "scan_tags mode done cur [] = None"
| "scan_tags AfterElem done cur (c # cs) =
     (if is_ws c then scan_tags AfterElem done cur cs
      else if c = CHR '','' then scan_tags BeforeElem done cur cs
      else if c = CHR '']'' then Some (done, cs)
      else None)"
| "scan_tags InString done cur (c # cs) =
     (if c = dquote then scan_tags AfterElem (done @ [cur]) [] cs
      else if c = bslash then
        (case cs of
           [] \<Rightarrow> None
         | e # cs1 \<Rightarrow>
             if e = dquote \<or> e = bslash \<or> e = CHR ''/'' then scan_tags InString done (cur @ [e]) cs1
             else if e = CHR ''b'' then scan_tags InString done (cur @ [CHR 0x08]) cs1
             else if e = CHR ''f'' then scan_tags InString done (cur @ [CHR 0x0C]) cs1
             else if e = CHR ''n'' then scan_tags InString done (cur @ [CHR 0x0A]) cs1
             else if e = CHR ''r'' then scan_tags InString done (cur @ [CHR 0x0D]) cs1
             else if e = CHR ''t'' then scan_tags InString done (cur @ [CHR 0x09]) cs1
             else if e = CHR ''u'' then
               (case getu4 (c # cs) of
                  None \<Rightarrow> None
                | Some rr \<Rightarrow>
                    if 0xD800 \<le> rr \<and> rr < 0xE000 then
                      (case getu4 (drop 5 cs) of
                         None \<Rightarrow> scan_tags InString done (cur @ replacementChar) (drop 5 cs)
                       | Some rr1 \<Rightarrow>
                           if rr < 0xDC00 \<and> 0xDC00 \<le> rr1 \<and> rr1 < 0xE000
                           then scan_tags InString done
                                  (cur @ encodeRune ((rr - 0xD800) * 1024 + (rr1 - 0xDC00) + 0x10000))
                                  (drop 11 cs)
                           else scan_tags InString done (cur @ replacementChar) (drop 5 cs))
                    else scan_tags InString done (cur @ encodeRune rr) (drop 5 cs))
             else None)
      else if byte c < 0x20 then None
      else if byte c < 0x80 then scan_tags InString done (cur @ [c]) cs
      else if utf8_len (c # cs) = 0 then scan_tags InString done (cur @ replacementChar) cs
      else scan_tags InString done (cur @ take (utf8_len (c # cs)) (c # cs))
             (drop (utf8_len (c # cs) - 1) cs))"
| "scan_tags BeforeFirst done cur (c # cs) =
     (if is_ws c then scan_tags BeforeFirst done cur cs
      else if c = CHR '']'' then Some (done, cs)
      else if c = dquote then scan_tags InString done [] cs
      else if take 4 (c # cs) = ''null'' then scan_tags AfterElem (done @ [[]]) [] (drop 3 cs)
      else None)"
| "scan_tags BeforeElem done cur (c # cs) =
     (if is_ws c then scan_tags BeforeElem done cur cs
      else if c = dquote then scan_tags InString done [] cs
      else if take 4 (c # cs) = ''null'' then scan_tags AfterElem (done @ [[]]) [] (drop 3 cs)
      else None)"

text \<open>The outer \<open>None\<close> is an error; \<open>Some None\<close> is success with a nil slice.\<close>

definition unmarshal_tags :: "string \<Rightarrow> string list option option" where
  "unmarshal_tags s =
     (case dropWhile is_ws s of
        [] \<Rightarrow> None
      | c # cs \<Rightarrow>
          if c = CHR ''['' then
            (case scan_tags BeforeFirst [] [] cs of
               None \<Rightarrow> None
             | Some (ts, rest) \<Rightarrow> if list_all is_ws rest then Some (Some ts) else None)
          else if take 4 (c # cs) = ''null'' \<and> list_all is_ws (drop 3 cs) then Some None
          else None)"

subsection \<open>The attachment bag\<close>

text \<open>
  The values of an attachment bag are arbitrary Go values, so what
  \<open>json.Marshal\<close> writes for a non-nil bag (or that it fails) and what
  \<open>json.Unmarshal\<close> reads back from a text (a bag, a nil bag for the literal
  \<open>null\<close>, or a failure) are arguments of the model: every statement about the
  durable store holds for every such pair of functions.
\<close>

record 'v json_lib =
  marshal_att :: "(string \<rightharpoonup> 'v) \<Rightarrow> string option"
  unmarshal_att :: "string \<Rightarrow> (string \<rightharpoonup> 'v) option option"

subsection \<open>The \<open>LIKE\<close> operator\<close>

text \<open>
  \<open>LIKE\<close> as SQLite, the engine of the repository's tests, evaluates it:
  \<open>%\<close> matches any sequence of characters, \<open>_\<close> one character (a lead byte
  with the continuation bytes that follow it), any other character itself, where
  upper and lower case ASCII letters are equal. There is no escape character.
\<close>

definition sql_lower :: "char \<Rightarrow> char" where
  "sql_lower c = (if 0x41 \<le> byte c \<and> byte c \<le> 0x5A then char_of (byte c + 32) else c)"

function like_match :: "string \<Rightarrow> string \<Rightarrow> bool" where
  "like_match [] t = (t = [])"
| "like_match (p # ps) [] = (p = CHR ''%'' \<and> like_match ps [])"
| "like_match (p # ps) (c # t) =
     (if p = CHR ''%'' then like_match ps (c # t) \<or> like_match (p # ps) t
      else if p = CHR ''_'' then like_match ps (if 0xC0 \<le> byte c then dropWhile cont t else t)
      else sql_lower p = sql_lower c \<and> like_match ps t)"
  by pat_completeness auto
termination
  by (relation "measure (\<lambda>(p, t). 2 * length p + length t)")
     (auto simp: less_Suc_eq_le intro: le_trans [OF length_dropWhile_le])

subsection \<open>Timestamps in the table\<close>

text \<open>
  The driver of the SQLite database binds a \<open>time.Time\<close>, as a column of a row
  and as an argument of a query alike, as the text that \<open>Time.Format\<close> gives for
  the layout \<open>2006-01-02 15:04:05.999999999-07:00\<close>: the date and the time of
  day on the clock of the location of the time, the fraction of the second
  without its trailing zeros, and the offset of the location in hours and
  minutes. Reading a row parses the text back into the same instant and offset.
\<close>

text \<open>The date of a day, counted from the first of January of year 1 (the day of the zero time).\<close>

definition civil :: "int \<Rightarrow> int \<times> int \<times> int" where
  "civil days =
     (let z = days + 306;
          era = z div 146097;
          doe = z mod 146097;
          yoe = (doe - doe div 1460 + doe div 36524 - doe div 146096) div 365;
          doy = doe - (365 * yoe + yoe div 4 - yoe div 100);
          mp = (5 * doy + 2) div 153;
          day = doy - (153 * mp + 2) div 5 + 1;
          month = (if mp < 10 then mp + 3 else mp - 9);
          year = yoe + era * 400 + (if month \<le> 2 then 1 else 0)
      in (year, month, day))"

text \<open>\<open>appendInt\<close>: the decimal digits, filled with zeros on the left up to the width.\<close>

definition appendInt :: "int \<Rightarrow> nat \<Rightarrow> string" where
  "appendInt x width =
     (let ds = dec_nat (nat \<bar>x\<bar>)
      in (if x < 0 then ''-'' else []) @ replicate (width - length ds) (CHR ''0'') @ ds)"

fun fmt_date :: "int \<times> int \<times> int \<Rightarrow> string" where
  "fmt_date (year, month, day) = appendInt year 4 @ ''-'' @ appendInt month 2 @ ''-'' @ appendInt day 2"

definition fmt_clock :: "int \<Rightarrow> string" where
  "fmt_clock sec =
     appendInt (sec div 3600) 2 @ '':'' @ appendInt (sec div 60 mod 60) 2 @ '':'' @ appendInt (sec mod 60) 2"

definition fmt_frac :: "int \<Rightarrow> string" where
  "fmt_frac ns =
     (if ns = 0 then []
      else CHR ''.'' # rev (dropWhile (\<lambda>c. c = CHR ''0'') (rev (appendInt ns 9))))"

text \<open>
  The offset is cut to whole minutes (Go's division rounds towards zero); the
  sign is that of the minutes.
\<close>

definition fmt_zone :: "int \<Rightarrow> string" where
  "fmt_zone offset =
     (let zone = \<bar>offset\<bar> div 60
      in (if offset < 0 \<and> zone \<noteq> 0 then ''-'' else ''+'')
         @ appendInt (zone div 60) 2 @ '':'' @ appendInt (zone mod 60) 2)"

definition sqlite_time :: "time \<Rightarrow> int \<Rightarrow> string" where
  "sqlite_time t offset =
     (let wall = t + offset * 1000000000
      in fmt_date (civil (wall div 86400000000000)) @ '' ''
         @ fmt_clock (wall mod 86400000000000 div 1000000000)
         @ fmt_frac (wall mod 1000000000) @ fmt_zone offset)"

text \<open>
  The engine compares two texts byte by byte, a proper prefix being the smaller:
  \<open>a < b\<close> on texts. It does not read them as times.
\<close>

fun text_less :: "string \<Rightarrow> string \<Rightarrow> bool" where
  "text_less [] [] = False"
| "text_less [] (y # ys) = True"
| "text_less (x # xs) [] = False"
| "text_less (x # xs) (y # ys) = (byte x < byte y \<or> (x = y \<and> text_less xs ys))"

section \<open>The durable store\<close>

text \<open>
  \<open>MailEntity\<close>, the row of table \<open>mails\<close>. The two timestamps that GORM
  maintains by itself (\<open>CreatedAt\<close>, \<open>UpdatedAt\<close>) never reach a Mail and
  are left out. The columns \<open>create_time\<close> and \<open>expire_time\<close> hold the texts
  \<open>create_text\<close> and \<open>expire_text\<close> of the instant and the offset that the
  row records.
\<close>

record MailEntity =
  eID :: string
  eSenderID :: string
  eRecipientID :: string
  eTitle :: string
  eContent :: string
  eAttachments :: string
  eReadStatus :: bool
  eCreateTime :: time
  eCreateZone :: int
  eExpireTime :: time
  eExpireZone :: int
  eTags :: string

definition create_text :: "MailEntity \<Rightarrow> string" where
  "create_text e = sqlite_time (eCreateTime e) (eCreateZone e)"

definition expire_text :: "MailEntity \<Rightarrow> string" where
  "expire_text e = sqlite_time (eExpireTime e) (eExpireZone e)"

text \<open>\<open>fmt.Errorf\<close> with \<open>%w\<close>: the message is extended, the kind is kept.\<close>

definition wrap :: "string \<Rightarrow> error \<Rightarrow> error" where
  "wrap pre err =
     (case err of
        InvalidArgument m \<Rightarrow> InvalidArgument (pre @ '': '' @ m)
      | NotFound m \<Rightarrow> NotFound (pre @ '': '' @ m)
      | SerializationError m \<Rightarrow> SerializationError (pre @ '': '' @ m)
      | StorageError m \<Rightarrow> StorageError (pre @ '': '' @ m)
      | Panic m \<Rightarrow> Panic (pre @ '': '' @ m))"

definition mailToEntity :: "'v json_lib \<Rightarrow> 'v Mail \<Rightarrow> error + MailEntity" where
  "mailToEntity J mail =
     (let entity = \<lparr> eID = ID mail, eSenderID = SenderID mail, eRecipientID = RecipientID mail,
                      eTitle = Title mail, eContent = Content mail, eAttachments = [],
                      eReadStatus = ReadStatus mail,
                      eCreateTime = CreateTime mail, eCreateZone = CreateZone mail,
                      eExpireTime = ExpireTime mail, eExpireZone = ExpireZone mail,
                      eTags = [] \<rparr>
      in case (case Attachments mail of
                 Some a \<Rightarrow> (case marshal_att J a of
                               None \<Rightarrow> Inl (SerializationError ''failed to marshal attachments'')
                             | Some attachmentsJSON \<Rightarrow> Inr attachmentsJSON)
               | None \<Rightarrow> Inr ''{}'') of
           Inl err \<Rightarrow> Inl err
         | Inr att \<Rightarrow>
             Inr (entity\<lparr> eAttachments := att,
                          eTags := (case Tags mail of
                                      Some ts \<Rightarrow> marshal_tags ts
                                    | None \<Rightarrow> ''[]'') \<rparr>))"

definition entityToMail :: "'v json_lib \<Rightarrow> MailEntity \<Rightarrow> error + 'v Mail" where
  "entityToMail J entity =
     (let mail = \<lparr> ID = eID entity, SenderID = eSenderID entity, RecipientID = eRecipientID entity,
                    Title = eTitle entity, Content = eContent entity, Attachments = None,
                    ReadStatus = eReadStatus entity,
                    CreateTime = eCreateTime entity, CreateZone = eCreateZone entity,
                    ExpireTime = eExpireTime entity, ExpireZone = eExpireZone entity,
                    Tags = None \<rparr>
      in case (if eAttachments entity \<noteq> [] then
                 (case unmarshal_att J (eAttachments entity) of
                    None \<Rightarrow> Inl (SerializationError ''failed to unmarshal attachments'')
                  | Some attachments \<Rightarrow> Inr (mail\<lparr>Attachments := attachments\<rparr>))
               else Inr mail) of
           Inl err \<Rightarrow> Inl err
         | Inr mail1 \<Rightarrow>
             if eTags entity \<noteq> [] then
               (case unmarshal_tags (eTags entity) of
                  None \<Rightarrow> Inl (SerializationError ''failed to unmarshal tags'')
                | Some tags \<Rightarrow> Inr (mail1\<lparr>Tags := tags\<rparr>))
             else Inr mail1)"

text \<open>
  The database is the table: a list of rows with distinct primary keys, in some
  order. Only the failures that the table itself decides are modelled (a
  primary key that is already taken); lost connections and cancelled contexts
  are not.
\<close>

type_synonym db = "MailEntity list"

definition db_inv :: "db \<Rightarrow> bool" where
  "db_inv d = distinct (map eID d)"

definition db_insert :: "MailEntity list \<Rightarrow> db \<Rightarrow> error + db" where
  "db_insert entities d =
     (if distinct (map eID (d @ entities)) then Inr (d @ entities)
      else Inl (StorageError ''UNIQUE constraint failed: mails.id''))"

definition gorm_CreateMail ::
  "'v json_lib \<Rightarrow> int \<Rightarrow> db \<Rightarrow> 'v Mail option \<Rightarrow> db \<times> 'v Mail option \<times> (error + string)" where
  "gorm_CreateMail J unixNano d mail =
     (case mail of
        None \<Rightarrow> (d, None, Inl (InvalidArgument ''mail cannot be nil''))
      | Some m \<Rightarrow>
          let m1 = (if ID m = [] then m\<lparr>ID := ''mail_'' @ fmt_d unixNano\<rparr> else m)
          in (case mailToEntity J m1 of
                Inl err \<Rightarrow> (d, Some m1, Inl (wrap ''failed to convert mail to entity'' err))
              | Inr entity \<Rightarrow>
                  (case db_insert [entity] d of
                     Inl err \<Rightarrow> (d, Some m1, Inl (wrap ''failed to create mail'' err))
                   | Inr d' \<Rightarrow> (d', Some m1, Inr (ID m1)))))"

definition gorm_GetMail :: "'v json_lib \<Rightarrow> db \<Rightarrow> string \<Rightarrow> error + 'v Mail" where
  "gorm_GetMail J d mailID =
     (if mailID = [] then Inl (InvalidArgument ''mail ID cannot be empty'')
      else case find (\<lambda>e. eID e = mailID) d of
             None \<Rightarrow> Inl (NotFound (''mail with ID '' @ mailID @ '' not found''))
           | Some entity \<Rightarrow>
               (case entityToMail J entity of
                  Inl err \<Rightarrow> Inl (wrap ''failed to convert entity to mail'' err)
                | Inr mail \<Rightarrow> Inr mail))"

definition gorm_UpdateMail :: "'v json_lib \<Rightarrow> db \<Rightarrow> 'v Mail option \<Rightarrow> db \<times> (error + unit)" where
  "gorm_UpdateMail J d mail =
     (case mail of
        None \<Rightarrow> (d, Inl (InvalidArgument ''mail cannot be nil and must have an ID''))
      | Some m \<Rightarrow>
          if ID m = [] then (d, Inl (InvalidArgument ''mail cannot be nil and must have an ID''))
          else if length (filter (\<lambda>e. eID e = ID m) d) = 0
          then (d, Inl (NotFound (''mail with ID '' @ ID m @ '' not found'')))
          else (case mailToEntity J m of
                  Inl err \<Rightarrow> (d, Inl (wrap ''failed to convert mail to entity'' err))
                | Inr entity \<Rightarrow> (map (\<lambda>e. if eID e = eID entity then entity else e) d, Inr ())))"

definition gorm_DeleteMail :: "db \<Rightarrow> string \<Rightarrow> db \<times> (error + unit)" where
  "gorm_DeleteMail d mailID =
     (if mailID = [] then (d, Inl (InvalidArgument ''mail ID cannot be empty''))
      else if length (filter (\<lambda>e. eID e = mailID) d) = 0
      then (d, Inl (NotFound (''mail with ID '' @ mailID @ '' not found'')))
      else (filter (\<lambda>e. eID e \<noteq> mailID) d, Inr ()))"

fun gorm_batch_loop ::
  "'v json_lib \<Rightarrow> (nat \<Rightarrow> int) \<Rightarrow> nat \<Rightarrow> nat option list
     \<Rightarrow> 'v heap \<times> MailEntity list \<times> string list
     \<Rightarrow> 'v heap \<times> (error + MailEntity list \<times> string list)" where
  "gorm_batch_loop J clock k [] (h, entities, ids) = (h, Inr (entities, ids))"
| "gorm_batch_loop J clock k (None # ps) acc = gorm_batch_loop J clock (Suc k) ps acc"
| "gorm_batch_loop J clock k (Some a # ps) (h, entities, ids) =
     (let m = h a;
          m1 = (if ID m = []
                then m\<lparr>ID := ''mail_'' @ fmt_d (clock k) @ ''_'' @ fmt_d (int (length ids))\<rparr>
                else m)
      in case mailToEntity J m1 of
           Inl err \<Rightarrow> (h(a := m1), Inl (wrap ''failed to convert mail to entity'' err))
         | Inr entity \<Rightarrow>
             gorm_batch_loop J clock (Suc k) ps (h(a := m1), entities @ [entity], ids @ [ID m1]))"

definition gorm_CreateBatchMails ::
  "'v json_lib \<Rightarrow> (nat \<Rightarrow> int) \<Rightarrow> db \<Rightarrow> 'v heap \<Rightarrow> nat option list
     \<Rightarrow> db \<times> 'v heap \<times> (error + string list)" where
  "gorm_CreateBatchMails J clock d h ps =
     (if length ps = 0 then (d, h, Inr [])
      else case gorm_batch_loop J clock 0 ps (h, [], []) of
             (h', Inl err) \<Rightarrow> (d, h', Inl err)
           | (h', Inr (entities, ids)) \<Rightarrow>
               if 0 < length entities then
                 (case db_insert entities d of
                    Inl err \<Rightarrow> (d, h', Inl (wrap ''failed to create batch mails'' err))
                  | Inr d' \<Rightarrow> (d', h', Inr ids))
               else (d, h', Inr ids))"

definition gorm_DeleteMailsByRecipient :: "db \<Rightarrow> string \<Rightarrow> db \<times> (error + unit)" where
  "gorm_DeleteMailsByRecipient d recipientID =
     (if recipientID = [] then (d, Inl (InvalidArgument ''recipientID cannot be empty''))
      else (filter (\<lambda>e. \<not> eRecipientID e = recipientID) d, Inr ()))"

text \<open>
  \<open>expire_time != ? AND expire_time < ?\<close> with the zero time and \<open>beforeTime\<close>
  as arguments. The database decides both comparisons, on the text of the
  column and the texts of the two arguments; \<open>beforeZone\<close> is the offset of the
  location of \<open>beforeTime\<close>.
\<close>

definition row_expired :: "time \<Rightarrow> int \<Rightarrow> MailEntity \<Rightarrow> bool" where
  "row_expired beforeTime beforeZone e =
     (expire_text e \<noteq> sqlite_time 0 0 \<and> text_less (expire_text e) (sqlite_time beforeTime beforeZone))"

definition gorm_DeleteExpiredMails :: "db \<Rightarrow> time \<Rightarrow> int \<Rightarrow> db \<times> (error + int)" where
  "gorm_DeleteExpiredMails d beforeTime beforeZone =
     (filter (\<lambda>e. \<not> row_expired beforeTime beforeZone e) d,
      Inr (int (length (filter (row_expired beforeTime beforeZone) d))))"

text \<open>The loop that converts the rows of a page stops at the first row that fails.\<close>

fun convert_all :: "'v json_lib \<Rightarrow> MailEntity list \<Rightarrow> error + 'v Mail list" where
  "convert_all J [] = Inr []"
| "convert_all J (entity # entities) =
     (case entityToMail J entity of
        Inl err \<Rightarrow> Inl (wrap ''failed to convert entity to mail'' err)
      | Inr mail \<Rightarrow>
          (case convert_all J entities of
             Inl err \<Rightarrow> Inl err
           | Inr ms \<Rightarrow> Inr (mail # ms)))"

text \<open>
  \<open>Order("create_time DESC").Offset(offset).Limit(size)\<close>. The order is that
  of the texts of the column. The engine decides the order of rows with equal
  \<open>create_time\<close>; the model keeps the order of the table among them. GORM
  writes an \<open>OFFSET\<close> clause only for a positive offset. The product
  \<open>(page - 1) * size\<close> wraps around as in the in-memory store.
\<close>

fun insertLatest :: "('a \<Rightarrow> string) \<Rightarrow> 'a \<Rightarrow> 'a list \<Rightarrow> 'a list" where
  "insertLatest col m [] = [m]"
| "insertLatest col m (x # xs) =
     (if text_less (col m) (col x) then x # insertLatest col m xs else m # x # xs)"

definition orderDesc :: "('a \<Rightarrow> string) \<Rightarrow> 'a list \<Rightarrow> 'a list" where
  "orderDesc col rows = foldr (insertLatest col) rows []"

definition db_page :: "MailEntity list \<Rightarrow> 64 word \<Rightarrow> 64 word \<Rightarrow> MailEntity list" where
  "db_page rows page1 size1 =
     (let offset = (page1 - 1) * size1;
          ordered = orderDesc create_text rows;
          skipped = (if 0 < sint offset then drop (nat (sint offset)) ordered else ordered)
      in take (nat (sint size1)) skipped)"

definition gorm_GetMailsByRecipient ::
  "'v json_lib \<Rightarrow> db \<Rightarrow> string \<Rightarrow> 64 word \<Rightarrow> 64 word \<Rightarrow> error + ('v Mail list \<times> int)" where
  "gorm_GetMailsByRecipient J d recipientID page sz =
     (if recipientID = [] then Inl (InvalidArgument ''recipientID cannot be empty'')
      else let page1 = (if sint page \<le> 0 then 1 else page);
               size1 = (if sint sz \<le> 0 then 10 else sz);
               rows = filter (\<lambda>e. eRecipientID e = recipientID) d;
               total = int (length rows)
           in if total = 0 then Inr ([], 0)
              else (case convert_all J (db_page rows page1 size1) of
                      Inl err \<Rightarrow> Inl err
                    | Inr ms \<Rightarrow> Inr (ms, total)))"

text \<open>
  The \<open>Where\<close> clauses that \<open>QueryMails\<close> chains, in the order of the
  source; a row is selected when all of them hold. The clauses on the two time
  columns compare texts, as the database does. A filter keeps the instants of
  its two bounds and not their locations: the bounds, and the reading of the
  clock that \<open>ExpiredOnly\<close> compares with, are taken to be UTC times. Each tag
  of the filter adds its own \<open>tags LIKE ?\<close> clause, with the tag between two
  \<open>%\<close>, on the serialized tag column.
\<close>

definition plain_conds :: "MailFilter option \<Rightarrow> time \<Rightarrow> (MailEntity \<Rightarrow> bool) list" where
  "plain_conds flt now =
     (case flt of
        None \<Rightarrow> []
      | Some f \<Rightarrow>
          (if fSenderID f \<noteq> [] then [\<lambda>e. eSenderID e = fSenderID f] else [])
          @ (if fRecipientID f \<noteq> [] then [\<lambda>e. eRecipientID e = fRecipientID f] else [])
          @ (case fReadStatus f of None \<Rightarrow> [] | Some r \<Rightarrow> [\<lambda>e. eReadStatus e = r])
          @ (case fStartTime f of
               None \<Rightarrow> []
             | Some st \<Rightarrow> [\<lambda>e. \<not> text_less (create_text e) (sqlite_time st 0)])
          @ (case fEndTime f of
               None \<Rightarrow> []
             | Some en \<Rightarrow> [\<lambda>e. \<not> text_less (sqlite_time en 0) (create_text e)])
          @ (if fExpiredOnly f
             then [\<lambda>e. expire_text e \<noteq> sqlite_time 0 0
                        \<and> text_less (expire_text e) (sqlite_time now 0)]
             else []))"

definition like_tags :: "MailFilter option \<Rightarrow> string list" where
  "like_tags flt =
     (case flt of
        None \<Rightarrow> []
      | Some f \<Rightarrow> if 0 < length (elems (fTags f)) then elems (fTags f) else [])"

definition query_conds :: "MailFilter option \<Rightarrow> time \<Rightarrow> (MailEntity \<Rightarrow> bool) list" where
  "query_conds flt now =
     plain_conds flt now
     @ map (\<lambda>tag. \<lambda>e. like_match (''%'' @ tag @ ''%'') (eTags e)) (like_tags flt)"

definition selected :: "MailFilter option \<Rightarrow> time \<Rightarrow> MailEntity \<Rightarrow> bool" where
  "selected flt now e = list_all (\<lambda>c. c e) (query_conds flt now)"

text \<open>
  The engine refuses a \<open>LIKE\<close> pattern of more than 50000 bytes, at the moment
  it evaluates the clause for a row, and the statement fails. It evaluates the
  clauses of a row in their order and stops at the first that does not hold:
  the statement fails when some row satisfies every clause before a \<open>LIKE\<close>
  clause whose pattern is too long.
\<close>

fun like_fails :: "string list \<Rightarrow> string \<Rightarrow> bool" where
  "like_fails [] txt = False"
| "like_fails (tag # tags) txt =
     (if 50000 < length (''%'' @ tag @ ''%'') then True
      else like_match (''%'' @ tag @ ''%'') txt \<and> like_fails tags txt)"

definition pattern_too_complex :: "MailFilter option \<Rightarrow> time \<Rightarrow> db \<Rightarrow> bool" where
  "pattern_too_complex flt now d =
     list_ex (\<lambda>e. list_all (\<lambda>c. c e) (plain_conds flt now) \<and> like_fails (like_tags flt) (eTags e)) d"

definition gorm_QueryMails ::
  "'v json_lib \<Rightarrow> db \<Rightarrow> MailFilter option \<Rightarrow> 64 word \<Rightarrow> 64 word \<Rightarrow> time
     \<Rightarrow> error + ('v Mail list \<times> int)" where
  "gorm_QueryMails J d flt page sz now =
     (let page1 = (if sint page \<le> 0 then 1 else page);
          size1 = (if sint sz \<le> 0 then 10 else sz)
      in if pattern_too_complex flt now d
         then Inl (StorageError ''failed to count filtered mails: LIKE or GLOB pattern too complex'')
         else let rows = filter (selected flt now) d;
                  total = int (length rows)
              in if total = 0 then Inr ([], 0)
                 else (case convert_all J (db_page rows page1 size1) of
                         Inl err \<Rightarrow> Inl err
                       | Inr ms \<Rightarrow> Inr (ms, total)))"

definition gorm_CountUnreadMails :: "db \<Rightarrow> string \<Rightarrow> error + int" where
  "gorm_CountUnreadMails d recipientID =
     (if recipientID = [] then Inl (InvalidArgument ''recipientID cannot be empty'')
      else Inr (int (length (filter (\<lambda>e. eRecipientID e = recipientID \<and> eReadStatus e = False) d))))"

definition gorm_CountMailsWithAttachments :: "db \<Rightarrow> string \<Rightarrow> error + int" where
  "gorm_CountMailsWithAttachments d recipientID =
     (if recipientID = [] then Inl (InvalidArgument ''recipientID cannot be empty'')
      else Inr (int (length (filter (\<lambda>e. eRecipientID e = recipientID \<and> eAttachments e \<noteq> []
                                          \<and> eAttachments e \<noteq> ''[]'' \<and> eAttachments e \<noteq> ''{}'') d))))"

text \<open>
  \<open>ExportMailLogs\<close> calls \<open>QueryMails\<close> for page 1 of size 10000 and hands
  the mails of that page to \<open>json.MarshalIndent\<close>; the model returns them.
\<close>

definition gorm_ExportMailLogs ::
  "'v json_lib \<Rightarrow> db \<Rightarrow> MailFilter option \<Rightarrow> time \<Rightarrow> error + 'v Mail list" where
  "gorm_ExportMailLogs J d flt now =
     (case gorm_QueryMails J d flt 1 10000 now of
        Inl err \<Rightarrow> Inl (wrap ''failed to query mails for export'' err)
      | Inr (ms, n) \<Rightarrow> Inr ms)"

definition GormStore :: "'v json_lib \<Rightarrow> (db, 'v) MailStore" where
  "GormStore J = \<lparr> GetMail = gorm_GetMail J, UpdateMail = gorm_UpdateMail J \<rparr>"

section \<open>Well-formed tags and a library for closed instances\<close>


text \<open>
  For the closed instances of the statements below: the part of
  \<open>encoding/json\<close> that does not depend on the values of a bag. The empty bag
  is written as \<open>{}\<close>, the text \<open>{}\<close> is read as the empty bag and the text
  \<open>null\<close> as the nil bag; this instance reports a failure for every other
  bag and text.
\<close>

definition json_empty_bags :: "'v json_lib" where
  "json_empty_bags =
     \<lparr> marshal_att = (\<lambda>a. if dom a = {} then Some ''{}'' else None),
       unmarshal_att = (\<lambda>t. if t = ''{}'' then Some (Some Map.empty)
                             else if t = ''null'' then Some None else None) \<rparr>"

section \<open>Example data\<close>

definition mk_mail :: "string \<Rightarrow> string \<Rightarrow> time \<Rightarrow> time \<Rightarrow> string list option \<Rightarrow> nat Mail" where
  "mk_mail i rcp created expires tags =
     \<lparr> ID = i, SenderID = ''system'', RecipientID = rcp, Title = ''Test Mail'',
       Content = ''This is a test mail'', Attachments = None, ReadStatus = False,
       CreateTime = created, CreateZone = 0, ExpireTime = expires, ExpireZone = 0,
       Tags = tags \<rparr>"

definition mk_store :: "nat Mail list \<Rightarrow> nat MemoryMailStore" where
  "mk_store ms = \<lparr> mails = map (\<lambda>m. (ID m, m)) ms, counter = 0 \<rparr>"

definition tag_filter :: "string list \<Rightarrow> MailFilter" where
  "tag_filter ts =
     \<lparr> fSenderID = [], fRecipientID = [], fReadStatus = None, fStartTime = None,
       fEndTime = None, fExpiredOnly = False, fTags = Some ts \<rparr>"

definition mk_row :: "nat \<Rightarrow> MailEntity" where
  "mk_row k =
     \<lparr> eID = fmt_d (int k), eSenderID = ''system'', eRecipientID = ''user1'', eTitle = ''Test Mail'',
       eContent = ''This is a test mail'', eAttachments = ''{}'', eReadStatus = False,
       eCreateTime = int k, eCreateZone = 0, eExpireTime = 0, eExpireZone = 0, eTags = ''[]'' \<rparr>"

definition row_mail :: "MailEntity \<Rightarrow> nat Mail" where
  "row_mail e =
     \<lparr> ID = eID e, SenderID = eSenderID e, RecipientID = eRecipientID e, Title = eTitle e,
       Content = eContent e, Attachments = Some Map.empty, ReadStatus = eReadStatus e,
       CreateTime = eCreateTime e, CreateZone = eCreateZone e,
       ExpireTime = eExpireTime e, ExpireZone = eExpireZone e, Tags = Some [] \<rparr>"

text \<open>
  The instant \<open>sec\<close> seconds after 2024-01-01 00:00:00 UTC, which is 738885
  days after the zero time. \<open>mail_of_zone\<close> is a mail of \<open>user1\<close> that expires
  at such an instant, the location of its \<open>ExpireTime\<close> being \<open>offset\<close>
  seconds east of UTC.
\<close>

definition at_2024_01_01 :: "int \<Rightarrow> time" where
  "at_2024_01_01 sec = (738885 * 86400 + sec) * 1000000000"

definition mail_of_zone :: "int \<Rightarrow> int \<Rightarrow> nat Mail" where
  "mail_of_zone sec offset =
     (mk_mail ''a'' ''user1'' (at_2024_01_01 0) (at_2024_01_01 sec) None)\<lparr>ExpireZone := offset\<rparr>"

text \<open>
  What the batch loops establish for the heap: only \<open>ID\<close> fields change,
  objects that had an id or are not pointed to are unchanged, and every object
  pointed to has an id afterwards.
\<close>

definition batch_post :: "'v heap \<Rightarrow> 'v heap \<Rightarrow> nat list \<Rightarrow> bool" where
  "batch_post h h' as \<longleftrightarrow>
     (\<forall>a. h' a = (h a)\<lparr>ID := ID (h' a)\<rparr>) \<and>
     (\<forall>a. ID (h a) \<noteq> [] \<or> a \<notin> set as \<longrightarrow> h' a = h a) \<and>
     (\<forall>a \<in> set as. ID (h' a) \<noteq> [])"

section \<open>Properties\<close>

subsection \<open>Auxiliary facts\<close>

lemma copyMail'_id [simp]: "copyMail' m = m"
  by (cases "Attachments m"; cases "Tags m") (simp_all add: copyMail'_def copyMail_def)

lemma map_copyMail' [simp]: "map copyMail' ms = ms"
  by (induction ms) simp_all

lemma fold_delete: "fold AList.delete ks xs = filter (\<lambda>p. fst p \<notin> set ks) xs"
proof (induction ks arbitrary: xs)
  case Nil
  then show ?case by simp
next
  case (Cons k ks)
  have "fold AList.delete (k # ks) xs = filter (\<lambda>p. fst p \<notin> set ks) (filter (\<lambda>p. fst p \<noteq> k) xs)"
    by (simp add: Cons.IH AList.delete_eq case_prod_unfold eq_commute [of k])
  also have "\<dots> = filter (\<lambda>p. fst p \<notin> set (k # ks)) xs"
    by (simp add: conj_commute)
  finally show ?case .
qed

lemma keys_of_filter:
  assumes "distinct (map fst xs)" "p \<in> set xs"
  shows "fst p \<in> set (map fst (filter P xs)) \<longleftrightarrow> P p"
proof
  assume "fst p \<in> set (map fst (filter P xs))"
  then obtain q where q: "q \<in> set xs" "P q" "fst q = fst p" by auto
  from assms q(1,3) have "q = p"
    by (metis eq_key_imp_eq_value prod.collapse)
  with q(2) show "P p" by simp
next
  assume "P p"
  with assms(2) show "fst p \<in> set (map fst (filter P xs))" by simp
qed

lemma delete_selected:
  assumes "distinct (map fst xs)"
  shows "fold AList.delete (map fst (filter P xs)) xs = filter (\<lambda>x. \<not> P x) xs"
proof -
  have "filter (\<lambda>p. fst p \<notin> set (map fst (filter P xs))) xs = filter (\<lambda>x. \<not> P x) xs"
  proof (rule filter_cong [OF refl])
    fix p assume "p \<in> set xs"
    from keys_of_filter [OF assms this, of P]
    show "(fst p \<notin> set (map fst (filter P xs))) = (\<not> P p)" by simp
  qed
  then show ?thesis by (simp only: fold_delete)
qed

lemma hasTag_iff: "hasTag fts mts \<longleftrightarrow> (\<exists>t \<in> set fts. t \<in> set mts)"
  by (simp add: hasTag_def list_ex_iff)

lemma if_then_False: "(if c then False else b) = (\<not> c \<and> b)"
  by simp

lemma matchMail_Some:
  "matchMail mail (Some f) now \<longleftrightarrow>
          (fSenderID f = [] \<or> SenderID mail = fSenderID f) \<and>
          (fRecipientID f = [] \<or> RecipientID mail = fRecipientID f) \<and>
          (\<forall>r. fReadStatus f = Some r \<longrightarrow> ReadStatus mail = r) \<and>
          (\<forall>st. fStartTime f = Some st \<longrightarrow> st \<le> CreateTime mail) \<and>
          (\<forall>en. fEndTime f = Some en \<longrightarrow> CreateTime mail \<le> en) \<and>
          (fExpiredOnly f \<longrightarrow> ExpireTime mail \<noteq> 0 \<and> ExpireTime mail < now) \<and>
          (elems (fTags f) \<noteq> [] \<longrightarrow>
             (\<exists>t \<in> set (elems (fTags f)). t \<in> set (elems (Tags mail))))"
proof -
  have r: "(case fReadStatus f of None \<Rightarrow> False | Some r \<Rightarrow> ReadStatus mail \<noteq> r)
             \<longleftrightarrow> \<not> (\<forall>r. fReadStatus f = Some r \<longrightarrow> ReadStatus mail = r)"
    by (cases "fReadStatus f") simp_all
  have st: "(case fStartTime f of None \<Rightarrow> False | Some st \<Rightarrow> CreateTime mail < st)
             \<longleftrightarrow> \<not> (\<forall>st. fStartTime f = Some st \<longrightarrow> st \<le> CreateTime mail)"
    by (cases "fStartTime f") (simp_all add: not_le)
  have en: "(case fEndTime f of None \<Rightarrow> False | Some en \<Rightarrow> en < CreateTime mail)
             \<longleftrightarrow> \<not> (\<forall>en. fEndTime f = Some en \<longrightarrow> CreateTime mail \<le> en)"
    by (cases "fEndTime f") (simp_all add: not_le)
  have "matchMail mail (Some f) now \<longleftrightarrow>
          \<not> (fSenderID f \<noteq> [] \<and> SenderID mail \<noteq> fSenderID f) \<and>
          \<not> (fRecipientID f \<noteq> [] \<and> RecipientID mail \<noteq> fRecipientID f) \<and>
          (\<forall>r. fReadStatus f = Some r \<longrightarrow> ReadStatus mail = r) \<and>
          (\<forall>st. fStartTime f = Some st \<longrightarrow> st \<le> CreateTime mail) \<and>
          (\<forall>en. fEndTime f = Some en \<longrightarrow> CreateTime mail \<le> en) \<and>
          \<not> (fExpiredOnly f \<and> (ExpireTime mail = 0 \<or> \<not> ExpireTime mail < now)) \<and>
          \<not> (0 < length (elems (fTags f)) \<and> \<not> hasTag (elems (fTags f)) (elems (Tags mail)))"
    unfolding matchMail_def option.case if_then_False r st en by simp
  then show ?thesis
    unfolding hasTag_iff by blast
qed

subsection \<open>The match predicate\<close>

text \<open>
  C7. \<open>matchMail\<close> accepts a mail exactly when every populated field of the
  filter is satisfied, all of them together: equal sender, equal recipient,
  equal read status, creation time within the inclusive bounds, for
  \<open>ExpiredOnly\<close> an expiry time that is not zero and lies strictly before
  \<open>now\<close>, and for a non-empty tag list at least one tag of the filter that is,
  verbatim, a tag of the mail. A nil filter, an empty string, a nil pointer, a
  false \<open>ExpiredOnly\<close> and an empty tag list impose nothing. \<open>QueryMails\<close>
  of the in-memory store tests every mail of one call against the same \<open>now\<close>.
\<close>

theorem matchMail_conjunction_of_populated_fields:
  "(matchMail mail flt now \<longleftrightarrow>
     (case flt of
        None \<Rightarrow> True
      | Some f \<Rightarrow>
          (fSenderID f = [] \<or> SenderID mail = fSenderID f) \<and>
          (fRecipientID f = [] \<or> RecipientID mail = fRecipientID f) \<and>
          (\<forall>r. fReadStatus f = Some r \<longrightarrow> ReadStatus mail = r) \<and>
          (\<forall>st. fStartTime f = Some st \<longrightarrow> st \<le> CreateTime mail) \<and>
          (\<forall>en. fEndTime f = Some en \<longrightarrow> CreateTime mail \<le> en) \<and>
          (fExpiredOnly f \<longrightarrow> ExpireTime mail \<noteq> 0 \<and> ExpireTime mail < now) \<and>
          (elems (fTags f) \<noteq> [] \<longrightarrow>
             (\<exists>t \<in> set (elems (fTags f)). t \<in> set (elems (Tags mail))))))
   \<and> mem_QueryMails s flt page sz now =
       paginate (sortNewestFirst (filter (\<lambda>m. matchMail m flt now) (map snd (mails s)))) page sz"
proof
  show "matchMail mail flt now \<longleftrightarrow>
     (case flt of
        None \<Rightarrow> True
      | Some f \<Rightarrow>
          (fSenderID f = [] \<or> SenderID mail = fSenderID f) \<and>
          (fRecipientID f = [] \<or> RecipientID mail = fRecipientID f) \<and>
          (\<forall>r. fReadStatus f = Some r \<longrightarrow> ReadStatus mail = r) \<and>
          (\<forall>st. fStartTime f = Some st \<longrightarrow> st \<le> CreateTime mail) \<and>
          (\<forall>en. fEndTime f = Some en \<longrightarrow> CreateTime mail \<le> en) \<and>
          (fExpiredOnly f \<longrightarrow> ExpireTime mail \<noteq> 0 \<and> ExpireTime mail < now) \<and>
          (elems (fTags f) \<noteq> [] \<longrightarrow>
             (\<exists>t \<in> set (elems (fTags f)). t \<in> set (elems (Tags mail)))))"
  proof (cases flt)
    case None
    then show ?thesis by (simp add: matchMail_def)
  next
    case (Some f)
    then show ?thesis by (simp only: matchMail_Some option.case)
  qed
next
  show "mem_QueryMails s flt page sz now =
       paginate (sortNewestFirst (filter (\<lambda>m. matchMail m flt now) (map snd (mails s)))) page sz"
    by (simp add: mem_QueryMails_def mem_matched_def)
qed

theorem matchMail_conjunction_of_populated_fields_witness:
  "matchMail (mk_mail ''m1'' ''user1'' 50 90 (Some [''test'', ''important'']))
     (Some \<lparr> fSenderID = ''system'', fRecipientID = ''user1'', fReadStatus = Some False,
             fStartTime = Some 50, fEndTime = Some 50, fExpiredOnly = True,
             fTags = Some [''urgent'', ''important''] \<rparr>) 100
   \<and> \<not> matchMail (mk_mail ''m1'' ''user1'' 50 90 (Some [''test'', ''important'']))
     (Some \<lparr> fSenderID = [], fRecipientID = [], fReadStatus = None,
             fStartTime = None, fEndTime = None, fExpiredOnly = False,
             fTags = Some [''port''] \<rparr>) 100"
  using matchMail_conjunction_of_populated_fields
          [THEN conjunct1,
           of "mk_mail ''m1'' ''user1'' 50 90 (Some [''test'', ''important''])"
              "Some \<lparr> fSenderID = ''system'', fRecipientID = ''user1'', fReadStatus = Some False,
                      fStartTime = Some 50, fEndTime = Some 50, fExpiredOnly = True,
                      fTags = Some [''urgent'', ''important''] \<rparr>" 100]
        matchMail_conjunction_of_populated_fields
          [THEN conjunct1,
           of "mk_mail ''m1'' ''user1'' 50 90 (Some [''test'', ''important''])"
              "Some \<lparr> fSenderID = [], fRecipientID = [], fReadStatus = None,
                      fStartTime = None, fEndTime = None, fExpiredOnly = False,
                      fTags = Some [''port''] \<rparr>" 100]
  by (simp add: mk_mail_def elems_def)

subsection \<open>Deleting expired mails\<close>

text \<open>
  The in-memory store removes exactly the mails whose \<open>ExpireTime\<close> is not
  zero and lies strictly before the given time, keeps every other mail as it
  is, and returns the number of mails removed and no error.
\<close>

lemma mem_DeleteExpiredMails_exact:
  assumes "store_inv s"
  shows "mem_DeleteExpiredMails s t =
           (s\<lparr>mails := filter (\<lambda>p. \<not> (ExpireTime (snd p) \<noteq> 0 \<and> ExpireTime (snd p) < t)) (mails s)\<rparr>,
            Inr (int (length (filter (\<lambda>p. ExpireTime (snd p) \<noteq> 0 \<and> ExpireTime (snd p) < t) (mails s)))))"
proof -
  have same: "(\<lambda>(i, mail). expired t mail) = (\<lambda>p. ExpireTime (snd p) \<noteq> 0 \<and> ExpireTime (snd p) < t)"
    by (simp add: fun_eq_iff expired_def case_prod_unfold)
  from assms have "distinct (map fst (mails s))"
    by (simp add: store_inv_def)
  then show ?thesis
    unfolding mem_DeleteExpiredMails_def same
    by (simp add: delete_selected)
qed

lemma mem_DeleteExpiredMails_example:
  "mem_DeleteExpiredMails
     (mk_store [mk_mail ''a'' ''user1'' 1 5 None, mk_mail ''b'' ''user1'' 2 0 None,
                mk_mail ''c'' ''user1'' 3 20 None]) 10
   = (mk_store [mk_mail ''b'' ''user1'' 2 0 None, mk_mail ''c'' ''user1'' 3 20 None], Inr 1)"
proof -
  have inv: "store_inv (mk_store [mk_mail ''a'' ''user1'' 1 5 None, mk_mail ''b'' ''user1'' 2 0 None,
                                  mk_mail ''c'' ''user1'' 3 20 None])"
    by (simp add: store_inv_def mk_store_def mk_mail_def)
  show ?thesis
    using mem_DeleteExpiredMails_exact [OF inv, of 10]
    by (simp add: mk_store_def mk_mail_def)
qed

text \<open>The texts that the database holds and receives in the example below.\<close>

lemma replicate_numeral: "replicate (numeral k) x = x # replicate (pred_numeral k) x"
  by (simp add: numeral_eq_Suc)

lemmas sqlite_time_unfold =
  sqlite_time_def civil_def fmt_clock_def fmt_frac_def fmt_zone_def appendInt_def Let_def

lemma sqlite_time_zero: "sqlite_time 0 0 = ''0001-01-01 00:00:00+00:00''"
  unfolding sqlite_time_unfold
  by (simp add: dec_nat.simps appendInt_def Let_def replicate_numeral)

lemma sqlite_time_ten_plus8:
  "sqlite_time (at_2024_01_01 7200) 28800 = ''2024-01-01 10:00:00+08:00''"
  unfolding sqlite_time_unfold at_2024_01_01_def
  by (simp add: dec_nat.simps appendInt_def Let_def replicate_numeral)

lemma sqlite_time_five_utc:
  "sqlite_time (at_2024_01_01 18000) 0 = ''2024-01-01 05:00:00+00:00''"
  unfolding sqlite_time_unfold at_2024_01_01_def
  by (simp add: dec_nat.simps appendInt_def Let_def replicate_numeral)

text \<open>
  C5. \<open>DeleteExpiredMails\<close> is claimed, on either store, to remove exactly
  the mails whose \<open>ExpireTime\<close> is not zero and lies strictly before the given
  time, and to return their number. The in-memory store does
  (\<open>mem_DeleteExpiredMails_exact\<close>). The durable store hands the comparison
  to the database, which compares the texts of the times and not the times.
  A mail that expires at 10:00:00 of 2024-01-01 in a location eight hours east
  of UTC, which is 02:00:00 UTC, has a non-zero \<open>ExpireTime\<close> that lies before
  05:00:00 UTC of that day. After the same \<open>CreateMail\<close> on both stores,
  \<open>DeleteExpiredMails\<close> with 05:00:00 UTC removes it from the in-memory store
  and returns 1; the durable store keeps the row and returns 0, since the text
  \<open>2024-01-01 10:00:00+08:00\<close> of the column is not below the text
  \<open>2024-01-01 05:00:00+00:00\<close> of the argument.
\<close>

theorem durable_DeleteExpiredMails_keeps_an_expired_mail:
  "ExpireTime (mail_of_zone 7200 28800) \<noteq> 0
   \<and> ExpireTime (mail_of_zone 7200 28800) < at_2024_01_01 18000
   \<and> mem_DeleteExpiredMails
        (fst (mem_CreateMail 0 NewMemoryMailStore (Some (mail_of_zone 7200 28800))))
        (at_2024_01_01 18000)
      = (NewMemoryMailStore, Inr 1)
   \<and> gorm_DeleteExpiredMails
        (fst (gorm_CreateMail json_empty_bags 0 [] (Some (mail_of_zone 7200 28800))))
        (at_2024_01_01 18000) 0
      = (fst (gorm_CreateMail json_empty_bags 0 [] (Some (mail_of_zone 7200 28800))), Inr 0)
   \<and> map eID (fst (gorm_CreateMail json_empty_bags 0 [] (Some (mail_of_zone 7200 28800)))) = [''a'']
   \<and> map expire_text (fst (gorm_CreateMail json_empty_bags 0 [] (Some (mail_of_zone 7200 28800))))
      = [''2024-01-01 10:00:00+08:00'']
   \<and> sqlite_time (at_2024_01_01 18000) 0 = ''2024-01-01 05:00:00+00:00''"
proof (intro conjI)
  let ?row = "\<lparr> eID = ''a'', eSenderID = ''system'', eRecipientID = ''user1'', eTitle = ''Test Mail'',
      eContent = ''This is a test mail'', eAttachments = ''{}'', eReadStatus = False,
      eCreateTime = at_2024_01_01 0, eCreateZone = 0,
      eExpireTime = at_2024_01_01 7200, eExpireZone = 28800, eTags = ''[]'' \<rparr>"
  have db: "fst (gorm_CreateMail json_empty_bags 0 [] (Some (mail_of_zone 7200 28800))) = [?row]"
    by (simp add: gorm_CreateMail_def mailToEntity_def db_insert_def mail_of_zone_def mk_mail_def
          json_empty_bags_def Let_def)
  have col: "expire_text ?row = ''2024-01-01 10:00:00+08:00''"
    by (simp add: expire_text_def sqlite_time_ten_plus8)
  have kept: "\<not> row_expired (at_2024_01_01 18000) 0 ?row"
    unfolding row_expired_def col sqlite_time_five_utc sqlite_time_zero
    by (simp add: byte_def)
  show "ExpireTime (mail_of_zone 7200 28800) \<noteq> 0"
    by (simp add: mail_of_zone_def mk_mail_def at_2024_01_01_def)
  show "ExpireTime (mail_of_zone 7200 28800) < at_2024_01_01 18000"
    by (simp add: mail_of_zone_def mk_mail_def at_2024_01_01_def)
  show "mem_DeleteExpiredMails
        (fst (mem_CreateMail 0 NewMemoryMailStore (Some (mail_of_zone 7200 28800))))
        (at_2024_01_01 18000)
      = (NewMemoryMailStore, Inr 1)"
    by (simp add: mem_DeleteExpiredMails_def mem_CreateMail_def NewMemoryMailStore_def expired_def
          mail_of_zone_def mk_mail_def at_2024_01_01_def Let_def)
  show "gorm_DeleteExpiredMails
        (fst (gorm_CreateMail json_empty_bags 0 [] (Some (mail_of_zone 7200 28800))))
        (at_2024_01_01 18000) 0
      = (fst (gorm_CreateMail json_empty_bags 0 [] (Some (mail_of_zone 7200 28800))), Inr 0)"
    unfolding db using kept by (simp add: gorm_DeleteExpiredMails_def)
  show "map eID (fst (gorm_CreateMail json_empty_bags 0 [] (Some (mail_of_zone 7200 28800)))) = [''a'']"
    unfolding db by simp
  show "map expire_text (fst (gorm_CreateMail json_empty_bags 0 [] (Some (mail_of_zone 7200 28800))))
      = [''2024-01-01 10:00:00+08:00'']"
    unfolding db using col by simp
  show "sqlite_time (at_2024_01_01 18000) 0 = ''2024-01-01 05:00:00+00:00''"
    by (rule sqlite_time_five_utc)
qed


subsection \<open>Pagination\<close>

lemma sint_start:
  fixes page sz :: "64 word"
  assumes "1 \<le> sint page" "0 \<le> (sint page - 1) * sint sz" "(sint page - 1) * sint sz < 2 ^ 63"
  shows "sint ((page - 1) * sz) = (sint page - 1) * sint sz"
proof -
  have "sint page < 2 ^ 63"
    using sint_lt [of page] by simp
  with assms(1) have pred: "sint (page - 1) = sint page - 1"
    by (simp add: sint_word_ariths signed_take_bit_int_eq_self)
  have "sint ((page - 1) * sz) = signed_take_bit 63 (sint (page - 1) * sint sz)"
    by (simp add: sint_word_ariths)
  also have "\<dots> = (sint page - 1) * sint sz"
    unfolding pred using assms(2,3) by (intro signed_take_bit_int_eq_self) simp_all
  finally show ?thesis .
qed

lemma sint_end:
  fixes a sz :: "64 word"
  assumes "0 \<le> sint a + sint sz" "sint a + sint sz < 2 ^ 63"
  shows "sint (a + sz) = sint a + sint sz"
proof -
  have "sint (a + sz) = signed_take_bit 63 (sint a + sint sz)"
    by (simp add: sint_word_ariths word_size)
  also have "\<dots> = sint a + sint sz"
    using assms by (intro signed_take_bit_int_eq_self) simp_all
  finally show ?thesis .
qed

text \<open>
  As long as \<open>(page - 1) * size + size\<close> fits into an \<open>int\<close>, a page is the
  segment of the list that starts at \<open>(page - 1) * size\<close> and has at most
  \<open>size\<close> elements, empty when the start is not below the total; the total is
  the length of the whole list; values below 1 stand for page 1 and size 10.
\<close>

lemma paginate_in_range:
  fixes page sz :: "64 word"
  assumes p: "1 \<le> sint page" and z: "1 \<le> sint sz"
    and fit: "(sint page - 1) * sint sz + sint sz < 2 ^ 63"
  shows "paginate xs page sz =
           Inr (take (nat (sint sz)) (drop (nat ((sint page - 1) * sint sz)) xs), int (length xs))"
proof -
  define st where "st = (sint page - 1) * sint sz"
  have st0: "0 \<le> st" using p z by (simp add: st_def)
  have st1: "st < 2 ^ 63" using fit z by (simp add: st_def)
  have start: "sint ((page - 1) * sz) = st"
    unfolding st_def using p st0 st1 by (intro sint_start) (simp_all add: st_def)
  have end0: "sint ((page - 1) * sz + sz) = st + sint sz"
    using sint_end [of "(page - 1) * sz" sz] start st0 z fit by (simp add: st_def)
  have np: "\<not> sint page \<le> 0" and nz: "\<not> sint sz \<le> 0" using p z by simp_all
  show ?thesis
  proof (cases "int (length xs) \<le> st")
    case True
    then have "drop (nat st) xs = []" using st0 by simp
    with True show ?thesis
      by (simp add: paginate_def Let_def np nz start st_def [symmetric])
  next
    case False
    show ?thesis
    proof (cases "int (length xs) < st + sint sz")
      case True
      have "take (nat (int (length xs)) - nat st) (drop (nat st) xs) = take (nat (sint sz)) (drop (nat st) xs)"
        using True st0 z by simp
      with False True st0 show ?thesis
        by (simp add: paginate_def Let_def np nz start end0 st_def [symmetric])
    next
      case F2: False
      have "nat (st + sint sz) - nat st = nat (sint sz)"
        using st0 z by simp
      with False F2 st0 z show ?thesis
        by (simp add: paginate_def Let_def np nz start end0 st_def [symmetric])
    qed
  qed
qed

lemma paginate_coerce:
  "paginate xs page sz =
     paginate xs (if sint page \<le> 0 then 1 else page) (if sint sz \<le> 0 then 10 else sz)"
  by (simp add: paginate_def Let_def)

lemma paginate_total: "paginate xs page sz = Inr (ys, n) \<Longrightarrow> n = int (length xs)"
  by (auto simp: paginate_def Let_def split: if_splits)

text \<open>
  C6. \<open>QueryMails\<close> is claimed to return, for all integers \<open>page\<close> and
  \<open>size\<close>, the segment of the sorted matches from \<open>(page - 1) * size\<close> on,
  and an empty slice without error whenever \<open>(page - 1) * size\<close> is at least
  the total. For \<open>page = 2305843009213693953\<close> and \<open>size = 4\<close> the product is
  \<open>2 ^ 63\<close>, far above the total of one stored mail, but as an \<open>int\<close> it
  wraps around to \<open>- 2 ^ 63\<close>: the test \<open>start >= total\<close> fails and the slice
  expression panics.
\<close>

theorem QueryMails_panics_when_the_offset_overflows:
  "mem_QueryMails (mk_store [mk_mail ''a'' ''user1'' 1 0 None]) None 2305843009213693953 4 0
     = Inl (Panic ''slice bounds out of range'')
   \<and> (2305843009213693953 - 1) * 4 \<ge> int (length (mails (mk_store [mk_mail ''a'' ''user1'' 1 0 None])))"
  by (simp add: mem_QueryMails_def mem_matched_def paginate_def Let_def mk_store_def)

subsection \<open>Empty identifiers\<close>

lemma gorm_rejects_empty_identifiers:
  "gorm_GetMail J d [] = Inl (InvalidArgument ''mail ID cannot be empty'')"
  "gorm_GetMailsByRecipient J d [] page sz = Inl (InvalidArgument ''recipientID cannot be empty'')"
  "gorm_CountUnreadMails d [] = Inl (InvalidArgument ''recipientID cannot be empty'')"
  "gorm_CountMailsWithAttachments d [] = Inl (InvalidArgument ''recipientID cannot be empty'')"
  by (simp_all add: gorm_GetMail_def gorm_GetMailsByRecipient_def gorm_CountUnreadMails_def
        gorm_CountMailsWithAttachments_def)

text \<open>
  C2. Both stores are claimed to fail with \<open>InvalidArgument\<close> when \<open>GetMail\<close>
  is called with an empty id and when \<open>GetMailsByRecipient\<close>,
  \<open>CountUnreadMails\<close> and \<open>CountMailsWithAttachments\<close> are called with an
  empty recipient id. The durable store does (\<open>gorm_rejects_empty_identifiers\<close>);
  the in-memory store has none of these checks: with an empty id \<open>GetMail\<close>
  fails with \<open>NotFound\<close>, and with an empty recipient id the other three
  succeed and answer for the mails whose recipient is the empty string.
\<close>

theorem memory_store_does_not_reject_empty_identifiers:
  "mem_GetMail (mk_store [mk_mail ''a'' [] 1 0 None]) [] = Inl (NotFound ''mail with ID  not found'')
   \<and> mem_GetMailsByRecipient (mk_store [mk_mail ''a'' [] 1 0 None]) [] 1 10
       = Inr ([mk_mail ''a'' [] 1 0 None], 1)
   \<and> mem_CountUnreadMails (mk_store [mk_mail ''a'' [] 1 0 None]) [] = Inr 1
   \<and> mem_CountMailsWithAttachments (mk_store [mk_mail ''a'' [] 1 0 None]) [] = Inr 0"
  by (simp add: mem_GetMail_def mem_GetMailsByRecipient_def mem_CountUnreadMails_def
        mem_CountMailsWithAttachments_def mk_store_def mk_mail_def paginate_def Let_def
        sortNewestFirst_def sortDesc_def)

subsection \<open>Marking as read\<close>

lemma entityToMail_fields:
  assumes "entityToMail J e = Inr r"
  shows "ID r = eID e" "SenderID r = eSenderID e" "RecipientID r = eRecipientID e"
    "Title r = eTitle e" "Content r = eContent e" "ReadStatus r = eReadStatus e"
    "CreateTime r = eCreateTime e" "ExpireTime r = eExpireTime e"
    "CreateZone r = eCreateZone e" "ExpireZone r = eExpireZone e"
  using assms
  by (auto simp: entityToMail_def Let_def split: if_splits option.splits)

lemma mailToEntity_fields:
  assumes "mailToEntity J m = Inr e"
  shows "eID e = ID m" "eSenderID e = SenderID m" "eRecipientID e = RecipientID m"
    "eTitle e = Title m" "eContent e = Content m" "eReadStatus e = ReadStatus m"
    "eCreateTime e = CreateTime m" "eExpireTime e = ExpireTime m"
    "eTags e = (case Tags m of Some ts \<Rightarrow> marshal_tags ts | None \<Rightarrow> ''[]'')"
    "eCreateZone e = CreateZone m" "eExpireZone e = ExpireZone m"
  using assms
  by (auto simp: mailToEntity_def Let_def split: option.splits)

lemma find_after_save:
  assumes "eID ent = i"
  shows "find (\<lambda>e. eID e = i) (map (\<lambda>e. if eID e = i then ent else e) d) =
           (case find (\<lambda>e. eID e = i) d of None \<Rightarrow> None | Some x \<Rightarrow> Some ent)"
  using assms by (induction d) simp_all

lemma mem_MarkAsRead_twice:
  "fst (MarkAsRead MemoryStore (fst (MarkAsRead MemoryStore s i)) i) = fst (MarkAsRead MemoryStore s i)"
proof (cases "fst (MarkAsRead MemoryStore s i) = s")
  case True
  then show ?thesis by simp
next
  case False
  then obtain m where i: "i \<noteq> []" and got: "map_of (mails s) i = Some m" and unread: "\<not> ReadStatus m"
    and upd: "MarkAsRead MemoryStore s i = mem_UpdateMail s (Some (m\<lparr>ReadStatus := True\<rparr>))"
    by (auto simp: MarkAsRead_def MemoryStore_def mem_GetMail_def split: option.splits if_splits)
  define m' where "m' = m\<lparr>ReadStatus := True\<rparr>"
  from False upd obtain old where idm: "ID m \<noteq> []" and ex: "map_of (mails s) (ID m) = Some old"
    and s': "fst (MarkAsRead MemoryStore s i) = s\<lparr>mails := AList.update (ID m) m' (mails s)\<rparr>"
    by (auto simp: mem_UpdateMail_def m'_def split: option.splits if_splits)
  let ?s' = "s\<lparr>mails := AList.update (ID m) m' (mails s)\<rparr>"
  have stored: "map_of (mails ?s') (ID m) = Some m'"
    by (simp add: update_conv')
  have again: "AList.update (ID m) m' (mails ?s') = mails ?s'"
    using stored by (rule update_triv)
  show ?thesis
  proof (cases "i = ID m")
    case True
    then have "mem_GetMail ?s' i = Inr m'"
      using stored by (simp add: mem_GetMail_def)
    then have "MarkAsRead MemoryStore ?s' i = (?s', Inr ())"
      using i by (simp add: MarkAsRead_def MemoryStore_def m'_def)
    then show ?thesis by (simp add: s')
  next
    case False
    then have "mem_GetMail ?s' i = Inr m"
      using got by (simp add: mem_GetMail_def update_conv')
    then have "MarkAsRead MemoryStore ?s' i = mem_UpdateMail ?s' (Some m')"
      using i unread by (simp add: MarkAsRead_def MemoryStore_def m'_def)
    also have "\<dots> = (?s', Inr ())"
      using idm stored again by (simp add: mem_UpdateMail_def m'_def)
    finally show ?thesis by (simp add: s')
  qed
qed

lemma gorm_MarkAsRead_twice:
  "fst (MarkAsRead (GormStore J) (fst (MarkAsRead (GormStore J) d i)) i) = fst (MarkAsRead (GormStore J) d i)"
proof (cases "fst (MarkAsRead (GormStore J) d i) = d")
  case True
  then show ?thesis by simp
next
  case False
  then obtain m where i: "i \<noteq> []" and got: "gorm_GetMail J d i = Inr m" and unread: "\<not> ReadStatus m"
    and upd: "MarkAsRead (GormStore J) d i = gorm_UpdateMail J d (Some (m\<lparr>ReadStatus := True\<rparr>))"
    by (auto simp: MarkAsRead_def GormStore_def split: sum.splits if_splits)
  from got i obtain e0 where e0: "find (\<lambda>e. eID e = i) d = Some e0" and conv: "entityToMail J e0 = Inr m"
    by (auto simp: gorm_GetMail_def split: option.splits sum.splits)
  from e0 have "eID e0 = i" by (auto dest: find_Some_iff [THEN iffD1])
  with conv have idm: "ID m = i" by (simp add: entityToMail_fields)
  define m' where "m' = m\<lparr>ReadStatus := True\<rparr>"
  from False upd obtain ent where ent: "mailToEntity J m' = Inr ent"
    and d': "fst (MarkAsRead (GormStore J) d i) = map (\<lambda>e. if eID e = eID ent then ent else e) d"
    by (auto simp: gorm_UpdateMail_def m'_def split: sum.splits if_splits)
  from ent idm have ient: "eID ent = i" and rent: "eReadStatus ent"
    by (simp_all add: mailToEntity_fields m'_def)
  let ?d' = "map (\<lambda>e. if eID e = i then ent else e) d"
  have found: "find (\<lambda>e. eID e = i) ?d' = Some ent"
    using find_after_save [OF ient, of d] e0 by simp
  have "fst (MarkAsRead (GormStore J) ?d' i) = ?d'"
  proof (cases "entityToMail J ent")
    case (Inl err)
    with found i show ?thesis
      by (simp add: MarkAsRead_def GormStore_def gorm_GetMail_def)
  next
    case (Inr r)
    then have "ReadStatus r" using rent by (simp add: entityToMail_fields)
    with Inr found i show ?thesis
      by (simp add: MarkAsRead_def GormStore_def gorm_GetMail_def)
  qed
  then show ?thesis by (simp add: d' ient)
qed

text \<open>
  C8. When the store returns, for a non-empty id, a mail whose \<open>ReadStatus\<close>
  is already true, \<open>MarkAsRead\<close> succeeds and leaves the store as it was,
  whatever store the manager holds; in particular on the in-memory store for
  every stored mail that is read. Marking is idempotent: on either store,
  the state after two calls of \<open>MarkAsRead\<close> with the same id is the state
  after one.
\<close>

theorem MarkAsRead_is_idempotent:
  "(mailID \<noteq> [] \<and> GetMail store st mailID = Inr mail \<and> ReadStatus mail
      \<longrightarrow> MarkAsRead store st mailID = (st, Inr ()))
   \<and> (i \<noteq> [] \<and> map_of (mails s) i = Some m \<and> ReadStatus m
      \<longrightarrow> MarkAsRead MemoryStore s i = (s, Inr ()))
   \<and> fst (MarkAsRead MemoryStore (fst (MarkAsRead MemoryStore s i)) i)
       = fst (MarkAsRead MemoryStore s i)
   \<and> fst (MarkAsRead (GormStore J) (fst (MarkAsRead (GormStore J) d i)) i)
       = fst (MarkAsRead (GormStore J) d i)"
proof (intro conjI impI)
  assume "mailID \<noteq> [] \<and> GetMail store st mailID = Inr mail \<and> ReadStatus mail"
  then show "MarkAsRead store st mailID = (st, Inr ())"
    by (simp add: MarkAsRead_def)
next
  assume "i \<noteq> [] \<and> map_of (mails s) i = Some m \<and> ReadStatus m"
  then show "MarkAsRead MemoryStore s i = (s, Inr ())"
    by (simp add: MarkAsRead_def MemoryStore_def mem_GetMail_def)
next
  show "fst (MarkAsRead MemoryStore (fst (MarkAsRead MemoryStore s i)) i)
          = fst (MarkAsRead MemoryStore s i)"
    by (rule mem_MarkAsRead_twice)
next
  show "fst (MarkAsRead (GormStore J) (fst (MarkAsRead (GormStore J) d i)) i)
          = fst (MarkAsRead (GormStore J) d i)"
    by (rule gorm_MarkAsRead_twice)
qed

theorem MarkAsRead_is_idempotent_witness:
  "MarkAsRead MemoryStore (mk_store [(mk_mail ''a'' ''user1'' 1 0 None)\<lparr>ReadStatus := True\<rparr>]) ''a''
     = (mk_store [(mk_mail ''a'' ''user1'' 1 0 None)\<lparr>ReadStatus := True\<rparr>], Inr ())
   \<and> fst (MarkAsRead MemoryStore (mk_store [mk_mail ''a'' ''user1'' 1 0 None]) ''a'')
     = mk_store [(mk_mail ''a'' ''user1'' 1 0 None)\<lparr>ReadStatus := True\<rparr>]"
proof -
  let ?r = "(mk_mail ''a'' ''user1'' 1 0 None)\<lparr>ReadStatus := True\<rparr>"
  have hyp: "''a'' \<noteq> [] \<and> map_of (mails (mk_store [?r])) ''a'' = Some ?r \<and> ReadStatus ?r"
    by (simp add: mk_store_def mk_mail_def)
  have once: "fst (MarkAsRead MemoryStore (mk_store [mk_mail ''a'' ''user1'' 1 0 None]) ''a'') = mk_store [?r]"
    by (simp add: MarkAsRead_def MemoryStore_def mem_GetMail_def mem_UpdateMail_def mk_store_def
          mk_mail_def)
  from MarkAsRead_is_idempotent
         [where i = "''a''" and s = "mk_store [?r]" and m = "?r", THEN conjunct2, THEN conjunct1]
       hyp once
  show ?thesis by simp
qed

subsection \<open>The id written into the caller's mail\<close>

lemma non_nil_simps [simp]:
  "non_nil [] = []" "non_nil (None # ps) = non_nil ps" "non_nil (Some a # ps) = a # non_nil ps"
  by (simp_all add: non_nil_def)

lemma GenerateID_nonempty [simp]: "snd (GenerateID u c) \<noteq> []"
  by (simp add: GenerateID_def)

lemma batch_post_Nil: "batch_post h h []"
  by (simp add: batch_post_def)

lemma batch_post_step:
  assumes ne: "ID m1 \<noteq> []" and upd: "m1 = (h a)\<lparr>ID := ID m1\<rparr>"
    and keep: "ID (h a) \<noteq> [] \<Longrightarrow> m1 = h a"
    and post: "batch_post (h(a := m1)) h' as"
  shows "h' a = m1" and "batch_post h h' (a # as)"
proof -
  from post have p1: "\<And>x. h' x = ((h(a := m1)) x)\<lparr>ID := ID (h' x)\<rparr>"
    and p2: "\<And>x. ID ((h(a := m1)) x) \<noteq> [] \<or> x \<notin> set as \<Longrightarrow> h' x = (h(a := m1)) x"
    and p3: "\<And>x. x \<in> set as \<Longrightarrow> ID (h' x) \<noteq> []"
    unfolding batch_post_def by blast+
  from p2 [of a] ne show a: "h' a = m1" by simp
  have q1: "h' x = (h x)\<lparr>ID := ID (h' x)\<rparr>" for x
  proof (cases "x = a")
    case True
    with a upd show ?thesis by simp
  next
    case False
    with p1 [of x] show ?thesis by simp
  qed
  have q2: "h' x = h x" if "ID (h x) \<noteq> [] \<or> x \<notin> set (a # as)" for x
  proof (cases "x = a")
    case True
    with that have "ID (h a) \<noteq> []" by simp
    with keep a True show ?thesis by simp
  next
    case False
    with that p2 [of x] show ?thesis by simp
  qed
  have q3: "ID (h' x) \<noteq> []" if "x \<in> set (a # as)" for x
    using that a ne p3 by (cases "x = a") auto
  show "batch_post h h' (a # as)"
    unfolding batch_post_def using q1 q2 q3 by blast
qed

lemma mem_batch_loop_post:
  "mem_batch_loop clock k ps (s, h, ids) = (s', h', ids')
     \<Longrightarrow> batch_post h h' (non_nil ps) \<and> ids' = ids @ map (\<lambda>a. ID (h' a)) (non_nil ps)"
proof (induction ps arbitrary: k s h ids)
  case Nil
  then show ?case by (simp add: batch_post_Nil)
next
  case (Cons p ps)
  show ?case
  proof (cases p)
    case None
    with Cons show ?thesis by simp
  next
    case (Some a)
    define m1 where "m1 = (if ID (h a) = [] then (h a)\<lparr>ID := snd (GenerateID (clock k) (counter s))\<rparr> else h a)"
    define s1 where "s1 = \<lparr> mails = AList.update (ID m1) m1 (mails s),
                            counter = (if ID (h a) = [] then fst (GenerateID (clock k) (counter s)) else counter s) \<rparr>"
    have step: "mem_batch_loop clock k (Some a # ps) (s, h, ids) =
                  mem_batch_loop clock (Suc k) ps (s1, h(a := m1), ids @ [ID m1])"
      by (simp add: m1_def s1_def Let_def case_prod_unfold)
    with Cons.prems Some have "mem_batch_loop clock (Suc k) ps (s1, h(a := m1), ids @ [ID m1]) = (s', h', ids')"
      by simp
    note ih = Cons.IH [OF this]
    from ih have post: "batch_post (h(a := m1)) h' (non_nil ps)"
      by (rule conjunct1)
    from ih have ids': "ids' = (ids @ [ID m1]) @ map (\<lambda>a. ID (h' a)) (non_nil ps)"
      by (rule conjunct2)
    have ne: "ID m1 \<noteq> []" and upd: "m1 = (h a)\<lparr>ID := ID m1\<rparr>" and keep: "ID (h a) \<noteq> [] \<Longrightarrow> m1 = h a"
      by (simp_all add: m1_def)
    from batch_post_step [OF ne upd keep post] ids' Some show ?thesis by simp
  qed
qed


lemma gorm_batch_loop_post:
  "gorm_batch_loop J clock k ps (h, ents, ids) = (h', Inr (ents', ids'))
     \<Longrightarrow> batch_post h h' (non_nil ps) \<and> ids' = ids @ map (\<lambda>a. ID (h' a)) (non_nil ps)"
proof (induction ps arbitrary: k h ents ids)
  case Nil
  then show ?case by (simp add: batch_post_Nil)
next
  case (Cons p ps)
  show ?case
  proof (cases p)
    case None
    with Cons show ?thesis by simp
  next
    case (Some a)
    define m1 where "m1 = (if ID (h a) = []
        then (h a)\<lparr>ID := ''mail_'' @ fmt_d (clock k) @ ''_'' @ fmt_d (int (length ids))\<rparr> else h a)"
    from Cons.prems Some obtain entity where ent: "mailToEntity J m1 = Inr entity"
      by (cases "mailToEntity J m1") (simp_all add: m1_def Let_def)
    then have step: "gorm_batch_loop J clock k (Some a # ps) (h, ents, ids) =
                  gorm_batch_loop J clock (Suc k) ps (h(a := m1), ents @ [entity], ids @ [ID m1])"
      by (simp add: m1_def Let_def)
    with Cons.prems Some
    have "gorm_batch_loop J clock (Suc k) ps (h(a := m1), ents @ [entity], ids @ [ID m1]) = (h', Inr (ents', ids'))"
      by simp
    note ih = Cons.IH [OF this]
    from ih have post: "batch_post (h(a := m1)) h' (non_nil ps)"
      by (rule conjunct1)
    from ih have ids': "ids' = (ids @ [ID m1]) @ map (\<lambda>a. ID (h' a)) (non_nil ps)"
      by (rule conjunct2)
    have ne: "ID m1 \<noteq> []" and upd: "m1 = (h a)\<lparr>ID := ID m1\<rparr>" and keep: "ID (h a) \<noteq> [] \<Longrightarrow> m1 = h a"
      by (simp_all add: m1_def)
    from batch_post_step [OF ne upd keep post] ids' Some show ?thesis by simp
  qed
qed

lemma gorm_batch_loop_frame:
  "fst (gorm_batch_loop J clock k ps (h, ents, ids)) a = (h a)\<lparr>ID := ID (fst (gorm_batch_loop J clock k ps (h, ents, ids)) a)\<rparr>"
proof (induction ps arbitrary: k h ents ids)
  case Nil
  then show ?case by simp
next
  case (Cons p ps)
  show ?case
  proof (cases p)
    case None
    with Cons show ?thesis by simp
  next
    case (Some b)
    define m1 where "m1 = (if ID (h b) = []
        then (h b)\<lparr>ID := ''mail_'' @ fmt_d (clock k) @ ''_'' @ fmt_d (int (length ids))\<rparr> else h b)"
    have upd: "m1 = (h b)\<lparr>ID := ID m1\<rparr>" by (simp add: m1_def)
    show ?thesis
    proof (cases "mailToEntity J m1")
      case (Inl err)
      then have "fst (gorm_batch_loop J clock k (Some b # ps) (h, ents, ids)) = h(b := m1)"
        by (simp add: m1_def Let_def)
      with upd Some show ?thesis by (cases "a = b") simp_all
    next
      case (Inr entity)
      then have step: "gorm_batch_loop J clock k (Some b # ps) (h, ents, ids) =
                  gorm_batch_loop J clock (Suc k) ps (h(b := m1), ents @ [entity], ids @ [ID m1])"
        by (simp add: m1_def Let_def)
      let ?h' = "fst (gorm_batch_loop J clock (Suc k) ps (h(b := m1), ents @ [entity], ids @ [ID m1]))"
      from Cons.IH [of "Suc k" "h(b := m1)" "ents @ [entity]" "ids @ [ID m1]"]
      have ih: "?h' a = ((h(b := m1)) a)\<lparr>ID := ID (?h' a)\<rparr>" .
      show ?thesis
      proof (cases "a = b")
        case True
        with ih have "?h' a = m1\<lparr>ID := ID (?h' a)\<rparr>" by simp
        also have "\<dots> = (h b)\<lparr>ID := ID (?h' a)\<rparr>" by (subst upd) simp
        finally show ?thesis using True Some step by simp
      next
        case False
        with ih Some step show ?thesis by simp
      qed
    qed
  qed
qed


text \<open>
  C10. For a mail whose \<open>ID\<close> is empty, \<open>CreateMail\<close> of either store
  writes the generated id into the object the caller passed, and the id it
  returns is that id. For \<open>CreateBatchMails\<close> of either store that returns
  ids: the ids are the \<open>ID\<close> fields that the objects pointed to have after
  the call, in the order of the pointers that are not nil; none of them is
  empty; no object differs from what it was in anything but its \<open>ID\<close>; and an
  object that had an id, or that the slice does not point to, is unchanged.
  Also a batch that the durable store rejects changes nothing but \<open>ID\<close>
  fields.
\<close>

theorem CreateMail_writes_the_id_into_the_callers_mail:
  "(ID m = [] \<longrightarrow>
      snd (mem_CreateMail u s (Some m)) =
        (Some (m\<lparr>ID := snd (GenerateID u (counter s))\<rparr>), Inr (snd (GenerateID u (counter s)))))
   \<and> (ID m = [] \<longrightarrow>
        fst (snd (gorm_CreateMail J u d (Some m))) = Some (m\<lparr>ID := ''mail_'' @ fmt_d u\<rparr>) \<and>
        (\<forall>i. snd (snd (gorm_CreateMail J u d (Some m))) = Inr i \<longrightarrow> i = ''mail_'' @ fmt_d u))
   \<and> (mem_CreateBatchMails clock s h ps = (s', h', Inr ids) \<longrightarrow>
        ids = map (\<lambda>a. ID (h' a)) (non_nil ps) \<and>
        (\<forall>a \<in> set (non_nil ps). ID (h' a) \<noteq> []) \<and>
        (\<forall>a. h' a = (h a)\<lparr>ID := ID (h' a)\<rparr>) \<and>
        (\<forall>a. ID (h a) \<noteq> [] \<or> a \<notin> set (non_nil ps) \<longrightarrow> h' a = h a))
   \<and> (gorm_CreateBatchMails J clock d h ps = (d', g', Inr gids) \<longrightarrow>
        gids = map (\<lambda>a. ID (g' a)) (non_nil ps) \<and>
        (\<forall>a \<in> set (non_nil ps). ID (g' a) \<noteq> []) \<and>
        (\<forall>a. g' a = (h a)\<lparr>ID := ID (g' a)\<rparr>) \<and>
        (\<forall>a. ID (h a) \<noteq> [] \<or> a \<notin> set (non_nil ps) \<longrightarrow> g' a = h a))
   \<and> (\<forall>a. fst (snd (gorm_CreateBatchMails J clock d h ps)) a
            = (h a)\<lparr>ID := ID (fst (snd (gorm_CreateBatchMails J clock d h ps)) a)\<rparr>)"
proof (intro conjI impI allI)
  assume "ID m = []"
  then show "snd (mem_CreateMail u s (Some m)) =
        (Some (m\<lparr>ID := snd (GenerateID u (counter s))\<rparr>), Inr (snd (GenerateID u (counter s))))"
    by (simp add: mem_CreateMail_def Let_def case_prod_unfold)
next
  assume "ID m = []"
  then show "fst (snd (gorm_CreateMail J u d (Some m))) = Some (m\<lparr>ID := ''mail_'' @ fmt_d u\<rparr>)"
    by (simp add: gorm_CreateMail_def Let_def split: sum.splits)
next
  assume "ID m = []"
  then show "i = ''mail_'' @ fmt_d u" if "snd (snd (gorm_CreateMail J u d (Some m))) = Inr i" for i
    using that by (simp add: gorm_CreateMail_def Let_def split: sum.splits)
next
  assume run: "mem_CreateBatchMails clock s h ps = (s', h', Inr ids)"
  have "batch_post h h' (non_nil ps) \<and> ids = [] @ map (\<lambda>a. ID (h' a)) (non_nil ps)"
  proof (cases "ps = []")
    case True
    with run show ?thesis by (simp add: mem_CreateBatchMails_def batch_post_Nil)
  next
    case False
    with run have "mem_batch_loop clock 0 ps (s, h, []) = (s', h', ids)"
      by (simp add: mem_CreateBatchMails_def split: prod.splits)
    then show ?thesis by (rule mem_batch_loop_post)
  qed
  then have post: "batch_post h h' (non_nil ps)" and ids: "ids = map (\<lambda>a. ID (h' a)) (non_nil ps)"
    by simp_all
  show "ids = map (\<lambda>a. ID (h' a)) (non_nil ps)"
    by (rule ids)
  show "\<forall>a \<in> set (non_nil ps). ID (h' a) \<noteq> []"
    using post unfolding batch_post_def by blast
  show "h' a = (h a)\<lparr>ID := ID (h' a)\<rparr>" for a
    using post unfolding batch_post_def by blast
  show "h' a = h a" if "ID (h a) \<noteq> [] \<or> a \<notin> set (non_nil ps)" for a
    using post that unfolding batch_post_def by blast
next
  assume run: "gorm_CreateBatchMails J clock d h ps = (d', g', Inr gids)"
  have "batch_post h g' (non_nil ps) \<and> gids = [] @ map (\<lambda>a. ID (g' a)) (non_nil ps)"
  proof (cases "ps = []")
    case True
    with run show ?thesis by (simp add: gorm_CreateBatchMails_def batch_post_Nil)
  next
    case False
    with run obtain ents where "gorm_batch_loop J clock 0 ps (h, [], []) = (g', Inr (ents, gids))"
      by (auto simp: gorm_CreateBatchMails_def split: prod.splits sum.splits if_splits)
    then show ?thesis by (rule gorm_batch_loop_post)
  qed
  then have post: "batch_post h g' (non_nil ps)" and gids: "gids = map (\<lambda>a. ID (g' a)) (non_nil ps)"
    by simp_all
  show "gids = map (\<lambda>a. ID (g' a)) (non_nil ps)"
    by (rule gids)
  show "\<forall>a \<in> set (non_nil ps). ID (g' a) \<noteq> []"
    using post unfolding batch_post_def by blast
  show "g' a = (h a)\<lparr>ID := ID (g' a)\<rparr>" for a
    using post unfolding batch_post_def by blast
  show "g' a = h a" if "ID (h a) \<noteq> [] \<or> a \<notin> set (non_nil ps)" for a
    using post that unfolding batch_post_def by blast
next
  fix a
  let ?loop = "gorm_batch_loop J clock 0 ps (h, [], [])"
  have "fst (snd (gorm_CreateBatchMails J clock d h ps)) = (if ps = [] then h else fst ?loop)"
    by (simp add: gorm_CreateBatchMails_def split: prod.splits sum.splits)
  then show "fst (snd (gorm_CreateBatchMails J clock d h ps)) a
            = (h a)\<lparr>ID := ID (fst (snd (gorm_CreateBatchMails J clock d h ps)) a)\<rparr>"
    using gorm_batch_loop_frame [of J clock 0 ps h "[]" "[]" a] by simp
qed


lemma fmt_d_small: "fmt_d 7 = ''7''" "fmt_d 1 = ''1''" "fmt_d 2 = ''2''" "fmt_d 0 = ''0''"
  by (simp_all add: fmt_d_def dec_nat.simps)

theorem CreateMail_writes_the_id_into_the_callers_mail_witness:
  "snd (mem_CreateMail 7 NewMemoryMailStore (Some (mk_mail [] ''user1'' 1 0 None)))
     = (Some (mk_mail ''mail_7_1'' ''user1'' 1 0 None), Inr ''mail_7_1'')
   \<and> snd (gorm_CreateMail json_empty_bags 7 [] (Some (mk_mail [] ''user1'' 1 0 None)))
     = (Some (mk_mail ''mail_7'' ''user1'' 1 0 None), Inr ''mail_7'')
   \<and> snd (mem_CreateBatchMails (\<lambda>k. 7) NewMemoryMailStore (\<lambda>a. mk_mail [] ''user1'' 1 0 None)
            [Some 0, None, Some 1, Some 0])
     = ((\<lambda>a. mk_mail [] ''user1'' 1 0 None)
           (0 := mk_mail ''mail_7_1'' ''user1'' 1 0 None, 1 := mk_mail ''mail_7_2'' ''user1'' 1 0 None),
        Inr [''mail_7_1'', ''mail_7_2'', ''mail_7_1''])
   \<and> snd (gorm_CreateBatchMails json_empty_bags (\<lambda>k. 7) [] (\<lambda>a. mk_mail [] ''user1'' 1 0 None)
            [Some 0, None, Some 1])
     = ((\<lambda>a. mk_mail [] ''user1'' 1 0 None)
           (0 := mk_mail ''mail_7_0'' ''user1'' 1 0 None, 1 := mk_mail ''mail_7_1'' ''user1'' 1 0 None),
        Inr [''mail_7_0'', ''mail_7_1''])"
proof -
  let ?m = "mk_mail [] ''user1'' 1 0 None"
  let ?h = "\<lambda>a::nat. ?m"
  let ?h1 = "?h(0 := mk_mail ''mail_7_1'' ''user1'' 1 0 None, 1 := mk_mail ''mail_7_2'' ''user1'' 1 0 None)"
  let ?g1 = "?h(0 := mk_mail ''mail_7_0'' ''user1'' 1 0 None, 1 := mk_mail ''mail_7_1'' ''user1'' 1 0 None)"
  have empty: "ID ?m = []" by (simp add: mk_mail_def)
  have gen: "GenerateID 7 (counter (NewMemoryMailStore :: nat MemoryMailStore)) = (1, ''mail_7_1'')"
    by (simp add: GenerateID_def NewMemoryMailStore_def fmt_d_small)
  have upd: "?m\<lparr>ID := ''mail_7_1''\<rparr> = mk_mail ''mail_7_1'' ''user1'' 1 0 None"
    "?m\<lparr>ID := ''mail_7''\<rparr> = mk_mail ''mail_7'' ''user1'' 1 0 None"
    by (simp_all add: mk_mail_def)
  have ok: "snd (snd (gorm_CreateMail json_empty_bags 7 [] (Some ?m))) = Inr ''mail_7''"
    by (simp add: gorm_CreateMail_def mailToEntity_def db_insert_def mk_mail_def Let_def fmt_d_small)
  have mem_batch: "mem_CreateBatchMails (\<lambda>k. 7) NewMemoryMailStore ?h [Some 0, None, Some 1, Some 0]
      = (\<lparr>mails = [(''mail_7_1'', mk_mail ''mail_7_1'' ''user1'' 1 0 None),
                   (''mail_7_2'', mk_mail ''mail_7_2'' ''user1'' 1 0 None)], counter = 2\<rparr>,
         ?h1, Inr [''mail_7_1'', ''mail_7_2'', ''mail_7_1''])"
    by (simp add: mem_CreateBatchMails_def NewMemoryMailStore_def GenerateID_def mk_mail_def Let_def
          fmt_d_small fun_upd_twist)
  have gorm_batch: "gorm_CreateBatchMails json_empty_bags (\<lambda>k. 7) [] ?h [Some 0, None, Some 1]
      = ([\<lparr> eID = ''mail_7_0'', eSenderID = ''system'', eRecipientID = ''user1'', eTitle = ''Test Mail'',
             eContent = ''This is a test mail'', eAttachments = ''{}'', eReadStatus = False,
             eCreateTime = 1, eCreateZone = 0, eExpireTime = 0, eExpireZone = 0, eTags = ''[]'' \<rparr>,
          \<lparr> eID = ''mail_7_1'', eSenderID = ''system'', eRecipientID = ''user1'', eTitle = ''Test Mail'',
             eContent = ''This is a test mail'', eAttachments = ''{}'', eReadStatus = False,
             eCreateTime = 1, eCreateZone = 0, eExpireTime = 0, eExpireZone = 0, eTags = ''[]'' \<rparr>],
         ?g1, Inr [''mail_7_0'', ''mail_7_1''])"
    by (simp add: gorm_CreateBatchMails_def mailToEntity_def db_insert_def mk_mail_def Let_def
          fmt_d_small fun_upd_twist)
  note inst = CreateMail_writes_the_id_into_the_callers_mail
        [where m = ?m and u = 7 and s = "NewMemoryMailStore" and J = json_empty_bags and d = "[]"]
  from inst [THEN conjunct1] empty gen upd
  have c1: "snd (mem_CreateMail 7 NewMemoryMailStore (Some ?m))
     = (Some (mk_mail ''mail_7_1'' ''user1'' 1 0 None), Inr ''mail_7_1'')"
    by simp
  from inst [THEN conjunct2, THEN conjunct1] empty ok upd
  have c2: "snd (gorm_CreateMail json_empty_bags 7 [] (Some ?m))
     = (Some (mk_mail ''mail_7'' ''user1'' 1 0 None), Inr ''mail_7'')"
    by (simp add: prod_eq_iff fmt_d_small)
  from CreateMail_writes_the_id_into_the_callers_mail
         [THEN conjunct2, THEN conjunct2, THEN conjunct1, rule_format, OF mem_batch]
  have c3: "[''mail_7_1'', ''mail_7_2'', ''mail_7_1''] = map (\<lambda>a. ID (?h1 a)) (non_nil [Some 0, None, Some 1, Some 0])"
    by (rule conjunct1)
  from CreateMail_writes_the_id_into_the_callers_mail
         [THEN conjunct2, THEN conjunct2, THEN conjunct2, THEN conjunct1, rule_format, OF gorm_batch]
  have c4: "[''mail_7_0'', ''mail_7_1''] = map (\<lambda>a. ID (?g1 a)) (non_nil [Some 0, None, Some 1])"
    by (rule conjunct1)
  from c1 c2 c3 c4 mem_batch gorm_batch show ?thesis by simp
qed


subsection \<open>Tag filters on the two stores\<close>

text \<open>
  C1. \<open>QueryMails\<close> with a non-empty tag list is claimed to select the same
  mails on both stores: those that carry, verbatim, at least one tag of the
  filter. The in-memory store does. The durable store adds one clause
  \<open>tags LIKE '%tag%'\<close> per tag of the filter, so it selects a mail when every
  tag of the filter occurs as a piece of text in the serialized tag column.
  After the same \<open>CreateMail\<close> on both stores: a mail tagged
  \<open>important\<close> is not selected by the filter tag \<open>port\<close> in memory but
  is selected by the durable store; a mail tagged \<open>x\<close> is selected by the
  filter tags \<open>x\<close>, \<open>y\<close> in memory but not by the durable store.
\<close>

theorem durable_tag_filter_differs_from_in_memory:
  "mem_QueryMails
     (fst (mem_CreateMail 0 NewMemoryMailStore (Some (mk_mail ''a'' ''user1'' 1 0 (Some [''important''])))))
     (Some (tag_filter [''port''])) 1 10 0
     = Inr ([], 0)
   \<and> gorm_QueryMails json_empty_bags
     (fst (gorm_CreateMail json_empty_bags 0 [] (Some (mk_mail ''a'' ''user1'' 1 0 (Some [''important''])))))
     (Some (tag_filter [''port''])) 1 10 0
     = Inr ([(mk_mail ''a'' ''user1'' 1 0 (Some [''important'']))\<lparr>Attachments := Some Map.empty\<rparr>], 1)
   \<and> mem_QueryMails
     (fst (mem_CreateMail 0 NewMemoryMailStore (Some (mk_mail ''a'' ''user1'' 1 0 (Some [''x''])))))
     (Some (tag_filter [''x'', ''y''])) 1 10 0
     = Inr ([mk_mail ''a'' ''user1'' 1 0 (Some [''x''])], 1)
   \<and> gorm_QueryMails json_empty_bags
     (fst (gorm_CreateMail json_empty_bags 0 [] (Some (mk_mail ''a'' ''user1'' 1 0 (Some [''x''])))))
     (Some (tag_filter [''x'', ''y''])) 1 10 0
     = Inr ([], 0)"
proof (intro conjI)
  show "mem_QueryMails
     (fst (mem_CreateMail 0 NewMemoryMailStore (Some (mk_mail ''a'' ''user1'' 1 0 (Some [''important''])))))
     (Some (tag_filter [''port''])) 1 10 0
     = Inr ([], 0)"
    by (simp add: mem_QueryMails_def mem_matched_def mem_CreateMail_def NewMemoryMailStore_def
          mk_mail_def tag_filter_def matchMail_def hasTag_def elems_def paginate_def Let_def
          sortNewestFirst_def sortDesc_def)
next
  have db: "fst (gorm_CreateMail json_empty_bags 0 [] (Some (mk_mail ''a'' ''user1'' 1 0 (Some [''important'']))))
      = [\<lparr> eID = ''a'', eSenderID = ''system'', eRecipientID = ''user1'', eTitle = ''Test Mail'',
            eContent = ''This is a test mail'', eAttachments = ''{}'', eReadStatus = False,
            eCreateTime = 1, eCreateZone = 0, eExpireTime = 0, eExpireZone = 0,
            eTags = CHR ''['' # CHR 0x22 # ''important'' @ [CHR 0x22, CHR '']''] \<rparr>]"
    by (simp add: gorm_CreateMail_def mailToEntity_def db_insert_def mk_mail_def Let_def
          marshal_tags_def json_string_def esc_ascii_def byte_def bslash_def dquote_def)
  show "gorm_QueryMails json_empty_bags
     (fst (gorm_CreateMail json_empty_bags 0 [] (Some (mk_mail ''a'' ''user1'' 1 0 (Some [''important''])))))
     (Some (tag_filter [''port''])) 1 10 0
     = Inr ([(mk_mail ''a'' ''user1'' 1 0 (Some [''important'']))\<lparr>Attachments := Some Map.empty\<rparr>], 1)"
    unfolding db
    by (simp add: gorm_QueryMails_def pattern_too_complex_def selected_def query_conds_def
          plain_conds_def like_tags_def tag_filter_def elems_def
          sql_lower_def byte_def db_page_def orderDesc_def Let_def entityToMail_def
          json_empty_bags_def unmarshal_tags_def is_ws_def bslash_def dquote_def mk_mail_def)
next
  show "mem_QueryMails
     (fst (mem_CreateMail 0 NewMemoryMailStore (Some (mk_mail ''a'' ''user1'' 1 0 (Some [''x''])))))
     (Some (tag_filter [''x'', ''y''])) 1 10 0
     = Inr ([mk_mail ''a'' ''user1'' 1 0 (Some [''x''])], 1)"
    by (simp add: mem_QueryMails_def mem_matched_def mem_CreateMail_def NewMemoryMailStore_def
          mk_mail_def tag_filter_def matchMail_def hasTag_def elems_def paginate_def Let_def
          sortNewestFirst_def sortDesc_def)
next
  have db: "fst (gorm_CreateMail json_empty_bags 0 [] (Some (mk_mail ''a'' ''user1'' 1 0 (Some [''x'']))))
      = [\<lparr> eID = ''a'', eSenderID = ''system'', eRecipientID = ''user1'', eTitle = ''Test Mail'',
            eContent = ''This is a test mail'', eAttachments = ''{}'', eReadStatus = False,
            eCreateTime = 1, eCreateZone = 0, eExpireTime = 0, eExpireZone = 0,
            eTags = CHR ''['' # CHR 0x22 # ''x'' @ [CHR 0x22, CHR '']''] \<rparr>]"
    by (simp add: gorm_CreateMail_def mailToEntity_def db_insert_def mk_mail_def Let_def
          marshal_tags_def json_string_def esc_ascii_def byte_def bslash_def dquote_def)
  show "gorm_QueryMails json_empty_bags
     (fst (gorm_CreateMail json_empty_bags 0 [] (Some (mk_mail ''a'' ''user1'' 1 0 (Some [''x''])))))
     (Some (tag_filter [''x'', ''y''])) 1 10 0
     = Inr ([], 0)"
    unfolding db
    by (simp add: gorm_QueryMails_def pattern_too_complex_def selected_def query_conds_def
          plain_conds_def like_tags_def tag_filter_def elems_def sql_lower_def byte_def)
qed


subsection \<open>Exporting\<close>

lemma set_insertNewest [simp]: "set (insertNewest f x xs) = insert x (set xs)"
  by (induction xs) auto

lemma length_insertNewest [simp]: "length (insertNewest f x xs) = Suc (length xs)"
  by (induction xs) auto

lemma set_sortDesc [simp]: "set (sortDesc f xs) = set xs"
  by (induction xs) (simp_all add: sortDesc_def)

lemma length_sortDesc [simp]: "length (sortDesc f xs) = length xs"
  by (induction xs) (simp_all add: sortDesc_def)

lemma set_insertLatest [simp]: "set (insertLatest f x xs) = insert x (set xs)"
  by (induction xs) auto

lemma length_insertLatest [simp]: "length (insertLatest f x xs) = Suc (length xs)"
  by (induction xs) auto

lemma set_orderDesc [simp]: "set (orderDesc f xs) = set xs"
  by (induction xs) (simp_all add: orderDesc_def)

lemma length_orderDesc [simp]: "length (orderDesc f xs) = length xs"
  by (induction xs) (simp_all add: orderDesc_def)

lemma convert_all_map:
  "(\<And>e. e \<in> set es \<Longrightarrow> entityToMail J e = Inr (g e)) \<Longrightarrow> convert_all J es = Inr (map g es)"
  by (induction es) simp_all

lemma selected_None [simp]: "selected None now e"
  by (simp add: selected_def query_conds_def plain_conds_def like_tags_def)

lemma pattern_too_complex_None [simp]: "\<not> pattern_too_complex None now d"
  by (simp add: pattern_too_complex_def like_tags_def list_ex_iff)

lemma gorm_export_capped:
  assumes conv: "\<And>e. e \<in> set d \<Longrightarrow> entityToMail J e = Inr (g e)" and ne: "d \<noteq> []"
  shows "gorm_ExportMailLogs J d None now = Inr (map g (take 10000 (orderDesc create_text d)))"
proof -
  have page: "db_page d 1 10000 = take 10000 (orderDesc create_text d)"
    by (simp add: db_page_def Let_def)
  have "convert_all J (take 10000 (orderDesc create_text d)) = Inr (map g (take 10000 (orderDesc create_text d)))"
    by (rule convert_all_map) (auto dest!: in_set_takeD intro: conv)
  with ne page show ?thesis
    by (simp add: gorm_ExportMailLogs_def gorm_QueryMails_def Let_def)
qed

lemma entityToMail_mk_row: "entityToMail json_empty_bags (mk_row k) = Inr (row_mail (mk_row k))"
  by (simp add: entityToMail_def mk_row_def row_mail_def json_empty_bags_def Let_def
        unmarshal_tags_def is_ws_def)

lemma mem_export_all:
  "mem_ExportMailLogs s flt now =
     Inr (sortNewestFirst (filter (\<lambda>m. matchMail m flt now) (map snd (mails s))))"
  by (simp add: mem_ExportMailLogs_def mem_matched_def)

text \<open>
  C4. \<open>ExportMailLogs\<close> is claimed to serialize every matching mail on either
  store, however many there are. The in-memory store does
  (\<open>mem_export_all\<close>). The durable store asks \<open>QueryMails\<close> for page 1 of
  size 10000 and serializes that page: of a table of 10001 rows, all of which
  the nil filter selects, it serializes 10000.
\<close>

theorem durable_export_stops_at_10000_mails:
  "(case gorm_ExportMailLogs json_empty_bags (map mk_row [0..<10001]) None 0 of
      Inl err \<Rightarrow> 0 | Inr ms \<Rightarrow> length (ms :: nat Mail list)) = 10000
   \<and> length (filter (selected None 0) (map mk_row [0..<10001])) = 10001"
proof -
  have ne: "map mk_row [0..<10001] \<noteq> []"
    by (simp add: upt_conv_Nil del: upt_Suc)
  have conv: "\<And>e. e \<in> set (map mk_row [0..<10001]) \<Longrightarrow> entityToMail json_empty_bags e = Inr (row_mail e)"
    by (auto simp: entityToMail_mk_row simp del: upt_Suc)
  have len: "length (map mk_row [0..<10001]) = 10001"
    by (simp del: upt_Suc)
  have "length (take 10000 (orderDesc create_text (map mk_row [0..<10001]))) = 10000"
    by (simp only: length_take length_orderDesc len) simp?
  with gorm_export_capped [where g = row_mail, OF conv ne] len
  show ?thesis by (simp del: upt_Suc)
qed


subsection \<open>Tags written to a row and read back\<close>


lemma char_of_byte [simp]: "char_of (byte b) = b"
  by (simp add: byte_def)






















subsection \<open>Creating a mail and getting it back\<close>




lemma marshal_tags_nonempty [simp]: "marshal_tags ts \<noteq> []"
  by (simp add: marshal_tags_def)










end
